theory Spec2Isabelle
  imports Complex_Main "HOL-Library.Sublist"
begin

section \<open>RPM Build Bot 2 (rpmbuild-bot2.py): a shallow embedding\<close>

text \<open>
  The script is Python 2. Its strings are byte strings (\<open>string\<close> here), its integers are
  unbounded (\<open>int\<close>), its exceptions are values of the type \<open>exn\<close> returned in the left
  summand of a result, and what it mutates (the fields of a \<open>Config\<close> object, the shared
  macro dictionary, files) is passed in and returned explicitly. Calls into the operating
  system (starting a process, reading the environment, the clock, the file system) are
  answered by functions the model takes as parameters, so that every theorem holds for
  every behaviour of the outside world.
\<close>

subsection \<open>Python string operations used by the script\<close>

text \<open>\<open>str.strip ()\<close> with no argument removes the ASCII white space of both ends.\<close>

definition isspace :: "char \<Rightarrow> bool" where
  "isspace c \<longleftrightarrow> c \<in> set [CHR '' '', CHR 0x09, CHR 0x0A, CHR 0x0B, CHR 0x0C, CHR 0x0D]"

definition strip :: "string \<Rightarrow> string" where
  "strip s = rev (dropWhile isspace (rev (dropWhile isspace s)))"

text \<open>The class \<open>\w\<close> of a byte-string pattern without flags: letters, digits, underscore.\<close>

definition isword :: "char \<Rightarrow> bool" where
  "isword c \<longleftrightarrow> (let n = (of_char c :: nat) in
     (97 \<le> n \<and> n \<le> 122) \<or> (65 \<le> n \<and> n \<le> 90) \<or> (48 \<le> n \<and> n \<le> 57) \<or> n = 95)"

definition isdigit :: "char \<Rightarrow> bool" where
  "isdigit c \<longleftrightarrow> (let n = (of_char c :: nat) in 48 \<le> n \<and> n \<le> 57)"

text \<open>\<open>sep.join (parts)\<close>.\<close>

fun join :: "string \<Rightarrow> string list \<Rightarrow> string" where
  "join sep [] = []"
| "join sep [x] = x"
| "join sep (x # y # ys) = x @ sep @ join sep (y # ys)"

text \<open>
  \<open>s.split (sep)\<close> for a one-character separator: the pieces between the separators,
  empty pieces included, so the result is never empty. \<open>split_max\<close> is
  \<open>s.split (sep, maxsplit)\<close>: at most \<open>maxsplit\<close> cuts, from the left.
\<close>

fun split_max :: "nat \<Rightarrow> char \<Rightarrow> string \<Rightarrow> string list" where
  "split_max 0 sep s = [s]"
| "split_max (Suc k) sep s =
     (if sep \<in> set s
      then takeWhile (\<lambda>c. c \<noteq> sep) s # split_max k sep (tl (dropWhile (\<lambda>c. c \<noteq> sep) s))
      else [s])"

definition split :: "char \<Rightarrow> string \<Rightarrow> string list" where
  "split sep s = split_max (length s) sep s"

text \<open>
  \<open>s.replace (old, new)\<close>: every occurrence of \<open>old\<close>, found from the left and not
  overlapping, becomes \<open>new\<close>. The first argument of \<open>replace_from\<close> counts the
  characters of an occurrence that are still to be skipped.
\<close>

fun replace_from :: "nat \<Rightarrow> string \<Rightarrow> string \<Rightarrow> string \<Rightarrow> string" where
  "replace_from k old new [] = []"
| "replace_from (Suc k) old new (c # t) = replace_from k old new t"
| "replace_from 0 old new (c # t) =
     (if prefix old (c # t) then new @ replace_from (length old - 1) old new t
      else c # replace_from 0 old new t)"

definition replace :: "string \<Rightarrow> string \<Rightarrow> string \<Rightarrow> string" where
  "replace s old new =
     (if old = [] then new @ concat (map (\<lambda>c. c # new) s) else replace_from 0 old new s)"

text \<open>Decimal numerals, as \<open>'%d'\<close> and \<open>'%s'\<close> print an integer.\<close>

fun show_nat :: "nat \<Rightarrow> string" where
  "show_nat n =
     (if n < 10 then [char_of (48 + n)] else show_nat (n div 10) @ [char_of (48 + n mod 10)])"

declare show_nat.simps [simp del]

definition show_int :: "int \<Rightarrow> string" where
  "show_int i = (if i < 0 then CHR ''-'' # show_nat (nat (- i)) else show_nat (nat i))"

subsection \<open>Exceptions\<close>

text \<open>
  A command line is what \<open>subprocess\<close> is given: a string for the shell
  (\<open>shell = True\<close>) or an argument vector.
\<close>

datatype command = Shell string | Argv "string list"

text \<open>
  The exceptions that reach the script's code. \<open>Error prefix msg hint\<close> and
  \<open>RunError cmd msg hint log_file\<close> are the script's own classes, with the fields their
  constructors set; \<open>NoSectionError\<close>, \<open>NoOptionError\<close>, \<open>InterpolationError\<close> and
  \<open>InterpolationDepthError\<close> are \<open>ConfigParser\<close>'s, with the positional arguments of the
  call that raised them; the others are built in or of \<open>subprocess\<close>. \<open>OSError_at\<close> is an
  \<open>OSError\<close> that also has a file name.
\<close>

datatype exn =
    Error "string option" string "string option"
  | RunError string string "string option" "string option"
  | NoSectionError string
  | NoOptionError string string
  | InterpolationError string string string
  | InterpolationDepthError string string string
  | CalledProcessError int command
  | OSError int string
  | OSError_at int string string
  | IOError int string
  | ValueError
  | IndexError
  | KeyError string
  | TypeError string

text \<open>
  The exceptions the script's top level reports as configuration errors (exit code 1):
  \<open>except (ConfigParser.NoSectionError, ConfigParser.NoOptionError,
  ConfigParser.InterpolationError)\<close>, the depth error being a subclass of the last.
\<close>

fun is_ConfigError :: "exn \<Rightarrow> bool" where
  "is_ConfigError (NoSectionError _) = True"
| "is_ConfigError (NoOptionError _ _) = True"
| "is_ConfigError (InterpolationError _ _ _) = True"
| "is_ConfigError (InterpolationDepthError _ _ _) = True"
| "is_ConfigError _ = False"

text \<open>
  \<open>Error.__init__ (self, prefix, msg = None, hint = None)\<close>: with no \<open>msg\<close> the first
  argument is the message and the prefix is dropped.
\<close>

definition falsy :: "string option \<Rightarrow> bool" where
  "falsy x \<longleftrightarrow> x = None \<or> x = Some []"

definition Error_init :: "string \<Rightarrow> string option \<Rightarrow> string option \<Rightarrow> exn" where
  "Error_init pfx msg hint =
     Error (if falsy msg then None else Some pfx)
           (if falsy msg then pfx else the msg) hint"

text \<open>
  \<open>RunError.__init__ (self, cmd, msg, hint = None, log_file = None)\<close> calls
  \<open>Error.__init__ (self, msg, hint = hint)\<close>.
\<close>

definition RunError_init :: "string \<Rightarrow> string \<Rightarrow> string option \<Rightarrow> string option \<Rightarrow> exn" where
  "RunError_init cmd msg hint log_file = RunError cmd msg hint log_file"

text \<open>\<open>str (e)\<close> of an \<open>OSError\<close> with an error number and a message.\<close>

definition str_EnvironmentError :: "int \<Rightarrow> string \<Rightarrow> string" where
  "str_EnvironmentError errno strerror = ''[Errno '' @ show_int errno @ ''] '' @ strerror"

subsection \<open>Processes\<close>

text \<open>
  What starting a command and waiting for it gives: it cannot be started (\<open>OSError\<close> with
  its error number and message), or it runs, prints and exits with a status.
\<close>

datatype proc_result = Cannot_start int string | Completed int string

text \<open>
  \<open>subprocess.check_output\<close>: the output of a command that exits with status 0,
  \<open>CalledProcessError\<close> for another status, \<open>OSError\<close> when it cannot be started.
\<close>

definition check_output :: "(command \<Rightarrow> proc_result) \<Rightarrow> command \<Rightarrow> exn + string" where
  "check_output run_process cmd =
     (case run_process cmd of
        Cannot_start errno strerror \<Rightarrow> Inl (OSError errno strerror)
      | Completed rc out \<Rightarrow> if rc \<noteq> 0 then Inl (CalledProcessError rc cmd) else Inr out)"

text \<open>
  \<open>command_output\<close> and \<open>shell_output\<close> turn an \<open>OSError\<close> into a \<open>RunError\<close> and let
  everything else through. \<open>shell_output\<close> joins the characters of its command string
  with blanks for the error's \<open>cmd\<close>, as \<open>' '.join\<close> does on a string.
\<close>

definition command_output :: "(command \<Rightarrow> proc_result) \<Rightarrow> string list \<Rightarrow> exn + string" where
  "command_output run_process command =
     (case check_output run_process (Argv command) of
        Inl (OSError errno strerror) \<Rightarrow>
          Inl (RunError_init (join '' '' command) (str_EnvironmentError errno strerror) None None)
      | r \<Rightarrow> r)"

definition shell_output :: "(command \<Rightarrow> proc_result) \<Rightarrow> string \<Rightarrow> exn + string" where
  "shell_output run_process command =
     (case check_output run_process (Shell command) of
        Inl (OSError errno strerror) \<Rightarrow>
          Inl (RunError_init (join '' '' (map (\<lambda>c. [c]) command))
                 (str_EnvironmentError errno strerror) None None)
      | r \<Rightarrow> r)"

subsection \<open>The placeholder pattern of \<open>Config.get\<close>\<close>

text \<open>
  \<open>Config.get\<close> scans a value with
  \<^verbatim>\<open>re.findall (r'\$\{(\w+:)?((?<=SHELL:).+|\w+)\}', ret)\<close>,
  which lists the two groups of every match, found from the left, a match never
  overlapping the one before. At a position that starts with \<open>${\<close> the pattern reads:
  \<^item> group 1, optional and greedy: the longest run of word characters, when it is not
    empty and a colon follows it;
  \<^item> group 2, first alternative, open only when the text read so far ends in \<open>SHELL:\<close>
    (the look-behind): at least one character and as many as possible of the line (the
    dot does not match a line feed), so that a closing brace follows, that is, up to the
    last closing brace of the line (\<open>shell_body\<close>);
  \<^item> group 2, second alternative: the longest run of word characters, not empty, with a
    closing brace right after it (\<open>word_body\<close>).
  No shorter run can be followed by a colon or a brace, so backtracking into the runs
  finds nothing more. Each function returns the groups and the length of the match.
\<close>

definition shell_body :: "string \<Rightarrow> (string \<times> nat) option" where
  "shell_body s =
     (let line = takeWhile (\<lambda>c. c \<noteq> CHR 0x0A) s;
          js = filter (\<lambda>j. line ! j = CHR ''}'') [1..<length line]
      in if js = [] then None else Some (take (last js) line, Suc (last js)))"

definition word_body :: "string \<Rightarrow> (string \<times> nat) option" where
  "word_body s =
     (let w = takeWhile isword s
      in if w \<noteq> [] \<and> prefix ''}'' (dropWhile isword s) then Some (w, Suc (length w)) else None)"

definition match_placeholder :: "string \<Rightarrow> ((string \<times> string) \<times> nat) option" where
  "match_placeholder s =
     (if prefix ''${'' s then
        (let t = drop 2 s; w = takeWhile isword t; r = dropWhile isword t in
         if w \<noteq> [] \<and> prefix '':'' r then
           (let g1 = w @ '':''; r1 = drop 1 r in
            case (if suffix ''SHELL:'' g1 then shell_body r1 else None) of
              Some (g2, n) \<Rightarrow> Some ((g1, g2), 2 + length g1 + n)
            | None \<Rightarrow>
               (case word_body r1 of
                  Some (g2, n) \<Rightarrow> Some ((g1, g2), 2 + length g1 + n)
                | None \<Rightarrow> None))
         else
           (case word_body t of
              Some (g2, n) \<Rightarrow> Some (([], g2), 2 + n)
            | None \<Rightarrow> None))
      else None)"

text \<open>The first argument of \<open>findall_from\<close> counts the characters of a match still to skip.\<close>

fun findall_from :: "nat \<Rightarrow> string \<Rightarrow> (string \<times> string) list" where
  "findall_from k [] = []"
| "findall_from (Suc k) (c # t) = findall_from k t"
| "findall_from 0 (c # t) =
     (case match_placeholder (c # t) of
        Some (g, n) \<Rightarrow> g # findall_from (n - 1) t
      | None \<Rightarrow> findall_from 0 t)"

definition findall_placeholders :: "string \<Rightarrow> (string \<times> string) list" where
  "findall_placeholders s = findall_from 0 s"

subsection \<open>\<open>class Config\<close>\<close>

definition RPMBUILD_EXE :: string where
  "RPMBUILD_EXE = ''rpmbuild.exe''"

text \<open>\<open>ConfigParser.MAX_INTERPOLATION_DEPTH\<close>, a constant of the Python 2 library.\<close>

definition MAX_INTERPOLATION_DEPTH :: int where
  "MAX_INTERPOLATION_DEPTH = 10"

text \<open>
  The outside world as \<open>Config.get\<close> meets it: \<open>os.environ\<close>, and what a command does when
  \<open>subprocess\<close> runs it.
\<close>

record os_env =
  environ :: "string \<rightharpoonup> string"
  run_process :: "command \<Rightarrow> proc_result"

text \<open>
  A \<open>Config\<close> object has the counter \<open>get_depth\<close>, the field \<open>rpm_macros\<close> and the sections
  it inherits from \<open>SafeConfigParser\<close>. \<open>rpm_macros\<close> holds a reference to a dictionary,
  not a dictionary: the script creates one dictionary (\<open>g_rpm\<close>) and hands it to every
  \<open>Config\<close>, so the field is an address into the store \<open>dicts\<close> of the \<open>world\<close>. The sections
  are only read by \<open>get\<close>, through the inherited
  \<open>SafeConfigParser.get (self, section, option, True, vars)\<close>; the field \<open>parser_get\<close> is that
  raw lookup (the value as written in the INI file, or \<open>NoSectionError\<close> or
  \<open>NoOptionError\<close>).

  The \<open>world\<close> also keeps the list of the commands started so far, the oldest first.
\<close>

record config =
  get_depth :: int
  rpm_macros :: nat
  parser_get :: "string \<Rightarrow> string \<Rightarrow> (string \<rightharpoonup> string) option \<Rightarrow> exn + string"

record world =
  dicts :: "nat \<Rightarrow> (string \<rightharpoonup> string)"
  started :: "command list"

type_synonym 'a outcome = "(exn + 'a) \<times> config \<times> world"

text \<open>
  The three kinds of placeholder that do not recurse.
  \<^item> \<open>ENV:\<close> \<open>sub = os.environ.get (f_option)\<close>, and \<open>NoOptionError\<close> when it is unset or
    empty;
  \<^item> \<open>SHELL:\<close> \<open>sub = shell_output (f_option).strip ()\<close>;
  \<^item> \<open>RPM:\<close> the cached value when \<open>f_option in self.rpm_macros\<close>, and otherwise
    \<open>command_output ([RPMBUILD_EXE, '--eval', '%{?NAME}']).strip ()\<close>, stored in the
    dictionary before it is used.
\<close>

definition resolve_env :: "os_env \<Rightarrow> string \<Rightarrow> string \<Rightarrow> exn + string" where
  "resolve_env os f_option f_section =
     (let sub = environ os f_option
      in if falsy sub then Inl (NoOptionError f_option (butlast f_section)) else Inr (the sub))"

definition resolve_shell :: "os_env \<Rightarrow> string \<Rightarrow> config \<times> world \<Rightarrow> string outcome" where
  "resolve_shell os f_option cw =
     (case cw of (c, w) \<Rightarrow>
        (map_sum id strip (shell_output (run_process os) f_option),
         c, w\<lparr>started := started w @ [Shell f_option]\<rparr>))"

definition rpm_eval :: "string \<Rightarrow> string list" where
  "rpm_eval f_option = [RPMBUILD_EXE, ''--eval'', ''%{?'' @ f_option @ ''}'']"

definition resolve_rpm :: "os_env \<Rightarrow> string \<Rightarrow> config \<times> world \<Rightarrow> string outcome" where
  "resolve_rpm os f_option cw =
     (case cw of (c, w) \<Rightarrow>
        (case dicts w (rpm_macros c) f_option of
           None \<Rightarrow>
             (let w1 = w\<lparr>started := started w @ [Argv (rpm_eval f_option)]\<rparr>
              in case command_output (run_process os) (rpm_eval f_option) of
                   Inl e \<Rightarrow> (Inl e, c, w1)
                 | Inr out \<Rightarrow>
                     (Inr (strip out), c,
                      w1\<lparr>dicts := (dicts w1)
                            (rpm_macros c := (dicts w1 (rpm_macros c))(f_option \<mapsto> strip out))\<rparr>))
         | Some sub \<Rightarrow> (Inr sub, c, w)))"

text \<open>
  \<open>except RunError as e: raise ConfigParser.InterpolationError (section, option, ...)\<close>
  around the body of the loop; every other exception passes unchanged.
\<close>

definition reraise :: "string \<Rightarrow> string \<Rightarrow> string \<Rightarrow> string \<Rightarrow> exn \<Rightarrow> exn" where
  "reraise section option f_section f_option e =
     (case e of
        RunError cmd msg hint log_file \<Rightarrow>
          InterpolationError section option
            (''Failed to interpolate ${'' @ f_section @ f_option @ ''}:'' @ [CHR 0x0A] @
             ''The following command failed with: '' @ msg @ '':'' @ [CHR 0x0A] @ ''  '' @ cmd)
      | _ \<Rightarrow> e)"

text \<open>
  \<open>if not option: section, option = section.split (':')\<close>, where unpacking anything but
  two pieces is a \<open>ValueError\<close>.
\<close>

definition split_name :: "string \<Rightarrow> string option \<Rightarrow> exn + string \<times> string" where
  "split_name section option =
     (if falsy option then
        (case split CHR '':'' section of
           [s, opt] \<Rightarrow> Inr (s, opt)
         | _ \<Rightarrow> Inl ValueError)
      else Inr (section, the option))"

text \<open>
  \<open>Config.get (self, section, option = None, raw = False, vars = None)\<close>, with the
  \<open>for\<close> loop over the matches as \<open>get_loop\<close>. The loop adds one to \<open>get_depth\<close> for
  every match; \<open>get\<close> takes one off after the loop, before it returns. A plain placeholder
  calls \<open>get\<close> again, and how deep these calls nest depends on the counter, which the
  calls themselves change: the model therefore counts the nested calls it may still make
  (its second argument), and \<open>None\<close> means that this number was too small. That enough is
  always found is the theorem \<open>get_terminates\<close> below.
\<close>

fun get :: "os_env \<Rightarrow> nat \<Rightarrow> string \<Rightarrow> string option \<Rightarrow> bool \<Rightarrow> (string \<rightharpoonup> string) option \<Rightarrow>
              config \<times> world \<Rightarrow> string outcome option"
and get_loop :: "os_env \<Rightarrow> nat \<Rightarrow> string \<Rightarrow> string \<Rightarrow> (string \<rightharpoonup> string) option \<Rightarrow>
              (string \<times> string) list \<Rightarrow> string \<Rightarrow> config \<times> world \<Rightarrow> string outcome option"
where
  "get os 0 section option raw vars cw = None"
| "get os (Suc fuel) section option raw vars (c, w) =
     (case split_name section option of
        Inl e \<Rightarrow> Some (Inl e, c, w)
      | Inr (section, option) \<Rightarrow>
          (case parser_get c section option vars of
             Inl e \<Rightarrow> Some (Inl e, c, w)
           | Inr ret \<Rightarrow>
               if raw then Some (Inr ret, c, w)
               else
                 (case get_loop os fuel section option vars (findall_placeholders ret) ret (c, w) of
                    None \<Rightarrow> None
                  | Some (Inl e, c', w') \<Rightarrow> Some (Inl e, c', w')
                  | Some (Inr ret', c', w') \<Rightarrow>
                      Some (Inr ret', c'\<lparr>get_depth := get_depth c' - 1\<rparr>, w'))))"
| "get_loop os fuel section option vars [] ret cw = Some (Inr ret, cw)"
| "get_loop os fuel section option vars ((f_section, f_option) # ms) ret (c, w) =
     (let c1 = c\<lparr>get_depth := get_depth c + 1\<rparr> in
      if get_depth c1 < MAX_INTERPOLATION_DEPTH then
        (case (if f_section = ''ENV:'' then Some (resolve_env os f_option f_section, c1, w)
               else if f_section = ''SHELL:'' then Some (resolve_shell os f_option (c1, w))
               else if f_section = ''RPM:'' then Some (resolve_rpm os f_option (c1, w))
               else get os fuel (if butlast f_section = [] then section else butlast f_section)
                      (Some f_option) False vars (c1, w)) of
           None \<Rightarrow> None
         | Some (Inl e, c2, w2) \<Rightarrow> Some (Inl (reraise section option f_section f_option e), c2, w2)
         | Some (Inr sub, c2, w2) \<Rightarrow>
             get_loop os fuel section option vars ms
               (replace ret (''${'' @ f_section @ f_option @ ''}'') sub) (c2, w2))
      else Some (Inl (InterpolationDepthError option section ret), c1, w))"


text \<open>
  For examples: the raw lookup of a configuration given as the table of its values, by
  section and option (option names in lower case, as \<open>optionxform\<close> makes them).
\<close>

definition ini_table ::
  "((string \<times> string) \<times> string) list \<Rightarrow> string \<Rightarrow> string \<Rightarrow> (string \<rightharpoonup> string) option \<Rightarrow> exn + string"
where
  "ini_table kvs section option vars =
     (if list_ex (\<lambda>kv. fst (fst kv) = section) kvs then
        (case (case vars of None \<Rightarrow> None | Some vs \<Rightarrow> vs option) of
           Some v \<Rightarrow> Inr v
         | None \<Rightarrow>
            (case map_of kvs (section, option) of
               None \<Rightarrow> Inl (NoOptionError option section)
             | Some v \<Rightarrow> Inr v))
      else Inl (NoSectionError section))"

definition new_config :: "((string \<times> string) \<times> string) list \<Rightarrow> config" where
  "new_config kvs = \<lparr>get_depth = 0, rpm_macros = 0, parser_get = ini_table kvs\<rparr>"

definition new_world :: world where
  "new_world = \<lparr>dicts = (\<lambda>_. Map.empty), started = []\<rparr>"

text \<open>An outside world with an empty environment, where only \<open>true\<close> and \<open>false\<close> exist.\<close>

definition bare_os :: os_env where
  "bare_os =
     \<lparr>environ = Map.empty,
      run_process = (\<lambda>cmd. if cmd = Shell ''true'' then Completed 0 []
                            else if cmd = Shell ''false'' then Completed 1 []
                            else Cannot_start 2 ''No such file or directory'')\<rparr>"

subsection \<open>\<open>run_pipe\<close> and \<open>run_pipe_log\<close>\<close>

text \<open>
  A stream the script writes to: \<open>sys.stdout\<close> or a file it has opened. The model keeps
  the list of the \<open>write\<close> calls the script itself makes, each with its stream, the oldest
  first; what a child process writes straight into a file it was handed is not part of it.
\<close>

datatype stream = Stdout | File string

text \<open>The globals \<open>run_pipe\<close> reads: \<open>g_args.log_to_console\<close>, \<open>g_log\<close>, \<open>g_output_file\<close>.\<close>

record globals =
  log_to_console :: bool
  g_log :: "stream option"
  g_output_file :: "stream option"

text \<open>
  What the processes of one call do. \<open>popen i cmd\<close> answers
  \<open>subprocess.Popen (cmd, ...)\<close> for the command at position \<open>i\<close> of the pipeline: the
  \<open>OSError\<close> (error number and message) when it cannot be started, or the exit status its
  \<open>wait ()\<close> will return. \<open>readlines commands\<close> are the lines that arrive on the merged
  output of the pipeline; \<open>re_findall regex line\<close> is \<open>re.compile (regex).findall (line)\<close>.
  Creating the pipe and its file object is taken to succeed.
\<close>

record proc_env =
  popen :: "nat \<Rightarrow> string list \<Rightarrow> (int \<times> string) + int"
  readlines :: "string list list \<Rightarrow> string list"
  re_findall :: "string \<Rightarrow> string \<Rightarrow> string list"

text \<open>
  The loop \<open>for cmd in commands [1:]: last_proc = subprocess.Popen (cmd, ...)\<close>. It
  returns the loop variable \<open>cmd\<close> as the loop left it and the exit status of
  \<open>last_proc\<close>, or the \<open>OSError\<close> of the first command that cannot be started together
  with that command (the value of \<open>cmd\<close> at that moment).
\<close>

fun start_rest :: "proc_env \<Rightarrow> nat \<Rightarrow> string list list \<Rightarrow> string list \<Rightarrow> int \<Rightarrow>
                   ((int \<times> string) \<times> string list) + (string list \<times> int)" where
  "start_rest P i [] cmd last_rc = Inr (cmd, last_rc)"
| "start_rest P i (c # cs) cmd last_rc =
     (case popen P i c of
        Inl err \<Rightarrow> Inl (err, c)
      | Inr rc \<Rightarrow> start_rest P (Suc i) cs c rc)"

text \<open>
  \<open>run_pipe (commands, regex = None, file = None)\<close>. After the output has been read the
  code waits for the processes:
  \<^verbatim>\<open>
    if len (commands) > 1:
      # TODO: we ignore the child exit code at the moment due to this bug: ...
      rc = last_proc.wait ()
    rc = proc.wait ()
    msg = 'exit code %d' % rc
  \<close>
  where \<open>proc\<close> is the first process of the pipeline, and \<open>finally: if rc: raise RunError
  (' '.join (cmd), msg)\<close>. An empty \<open>commands\<close> fails at \<open>commands [0]\<close> with an
  \<open>IndexError\<close> that nothing catches.
\<close>

definition run_pipe :: "proc_env \<Rightarrow> globals \<Rightarrow> string list list \<Rightarrow> string option \<Rightarrow> stream option \<Rightarrow>
    (stream \<times> string) list \<Rightarrow> (exn + string list) \<times> (stream \<times> string) list" where
  "run_pipe P G commands regex file0 written =
     (let file = (if file0 = None then g_output_file G else file0);
          recomp = (if falsy regex then None else Some (re_findall P (the regex)));
          duplicate_output = (log_to_console G \<and> g_log G \<noteq> Some Stdout \<and> file \<noteq> Some Stdout);
          capture_output = (duplicate_output \<or> recomp \<noteq> None \<or> file = None)
      in case commands of
           [] \<Rightarrow> (Inl IndexError, written)
         | cmd0 # rest \<Rightarrow>
             (case popen P 0 cmd0 of
                Inl (errno, strerror) \<Rightarrow>
                  (Inl (RunError_init (join '' '' cmd0)
                          (''error '' @ show_int errno @ '' ('' @ strerror @ '')'') None None),
                   written)
              | Inr first_rc \<Rightarrow>
                  (case start_rest P 1 rest cmd0 first_rc of
                     Inl ((errno, strerror), cmd) \<Rightarrow>
                       (Inl (RunError_init (join '' '' cmd)
                               (''error '' @ show_int errno @ '' ('' @ strerror @ '')'') None None),
                        written)
                   | Inr (cmd, last_rc) \<Rightarrow>
                       (let captured = (if capture_output then readlines P commands else []);
                            lines = (case recomp of
                                       None \<Rightarrow> []
                                     | Some findall \<Rightarrow> concat (map findall captured));
                            written' = written @ concat (map (\<lambda>line.
                                         (if duplicate_output then [(Stdout, line)] else []) @
                                         (case file of None \<Rightarrow> [] | Some f \<Rightarrow> [(f, line)])) captured);
                            rc = 0;
                            rc = (if length commands > 1 then last_rc else rc);
                            rc = first_rc
                        in if rc \<noteq> 0
                           then (Inl (RunError_init (join '' '' cmd)
                                        (''exit code '' @ show_int rc) None None), written')
                           else (Inr lines, written')))))"

text \<open>
  A call of \<open>Error (...)\<close> with one positional argument and keyword arguments. Python
  binds the keywords to the parameters \<open>prefix\<close>, \<open>msg\<close>, \<open>hint\<close> of \<open>Error.__init__\<close>
  before the body runs, and a keyword that is no parameter, or one that names the
  positional argument again, is a \<open>TypeError\<close>.
\<close>

definition Error_call :: "string \<Rightarrow> (string \<times> string) list \<Rightarrow> exn" where
  "Error_call pfx kwargs =
     (case filter (\<lambda>kv. fst kv \<notin> set [''prefix'', ''msg'', ''hint'']) kwargs of
        kv # _ \<Rightarrow>
          TypeError (''__init__() got an unexpected keyword argument '' @
                     [CHR 0x27] @ fst kv @ [CHR 0x27])
      | [] \<Rightarrow>
          if map_of kwargs ''prefix'' \<noteq> None
          then TypeError (''__init__() got multiple values for keyword argument '' @
                          [CHR 0x27] @ ''prefix'' @ [CHR 0x27])
          else Error_init pfx (map_of kwargs ''msg'') (map_of kwargs ''hint''))"

text \<open>
  The two readings of \<open>datetime.datetime.now ()\<close> in \<open>run_pipe_log\<close>, as
  \<open>strftime (DATETIME_FMT)\<close> prints them, and \<open>str (end_ts - start_ts).rstrip ('0')\<close>.
\<close>

record clock =
  start_ts :: string
  end_ts :: string
  elapsed :: string

text \<open>
  \<open>run_pipe_log (log_file, commands, regex = None)\<close>. \<open>open_error\<close> is the \<open>IOError\<close> of
  \<open>open (log_file, 'w', buffering = 1)\<close>, if it fails. In the handler \<open>cmd = e.cmd\<close> is a
  string, so \<open>' '.join (cmd)\<close> puts a blank between its characters.
\<close>

definition run_pipe_log :: "proc_env \<Rightarrow> globals \<Rightarrow> clock \<Rightarrow> (int \<times> string) option \<Rightarrow>
    string \<Rightarrow> string list list \<Rightarrow> string option \<Rightarrow>
    (stream \<times> string) list \<Rightarrow> (exn + string list) \<times> (stream \<times> string) list" where
  "run_pipe_log P G T open_error log_file commands regex written =
     (case open_error of
        Some (errno, strerror) \<Rightarrow> (Inl (IOError errno strerror), written)
      | None \<Rightarrow>
          (let f = File log_file;
               written1 = written @
                 [(f, ''['' @ start_ts T @ '', '' @ join '' | '' (map (join '' '') commands) @ '']'' @ [CHR 0x0A])];
               (r, written2) = run_pipe P G commands regex (Some f) written1;
               (rc, msg) = (case r of Inl (RunError cmd msg hint lf) \<Rightarrow> (1 :: int, msg)
                            | _ \<Rightarrow> (0, ''exit code 0''));
               written3 = written2 @
                 [(f, ''['' @ end_ts T @ '', '' @ msg @ '', '' @ elapsed T @ '' s]'' @ [CHR 0x0A])]
           in case r of
                Inl (RunError cmd msg' hint lf) \<Rightarrow>
                  (Inl (Error_call
                          (''The following command failed with: '' @ msg @ '':'' @ [CHR 0x0A] @
                           ''  '' @ join '' '' (map (\<lambda>c. [c]) cmd))
                          [(''log_file'', log_file)]),
                   written3)
              | _ \<Rightarrow> (r, written3)))"

text \<open>Examples: a pipeline of two commands that both start, with their exit statuses.\<close>

definition two_stage :: "int \<Rightarrow> int \<Rightarrow> proc_env" where
  "two_stage first_status last_status =
     \<lparr>popen = (\<lambda>i cmd. if i = 0 then Inr first_status else Inr last_status),
      readlines = (\<lambda>commands. []),
      re_findall = (\<lambda>regex line. [])\<rparr>"

definition quiet :: globals where
  "quiet = \<lparr>log_to_console = False, g_log = Some (File ''rpmbuild-bot2.log''), g_output_file = None\<rparr>"

definition unpack :: "string list list" where
  "unpack = [[''rpm2cpio.exe'', ''x.rpm''], [''cpio.exe'', ''-idm'']]"

definition one_stage :: "int \<Rightarrow> proc_env" where
  "one_stage status =
     \<lparr>popen = (\<lambda>i cmd. Inr status),
      readlines = (\<lambda>commands. [''error: Bad exit status'' @ [CHR 0x0A]]),
      re_findall = (\<lambda>regex line. [])\<rparr>"

definition five_seconds :: clock where
  "five_seconds = \<lparr>start_ts = ''2017-05-01 10:00:00'', end_ts = ''2017-05-01 10:00:05'',
                     elapsed = ''0:00:05''\<rparr>"

subsection \<open>Notions for the theorems about \<open>Config.get\<close>\<close>

text \<open>
  The value \<open>get\<close> substitutes for one match of the loop: the \<open>if\<close>/\<open>elif\<close> chain of the
  loop body on its own (\<open>get_loop_Cons\<close> below states the loop with it).
\<close>

definition placeholder_value :: "os_env \<Rightarrow> nat \<Rightarrow> string \<Rightarrow> (string \<rightharpoonup> string) option \<Rightarrow>
    string \<Rightarrow> string \<Rightarrow> config \<times> world \<Rightarrow> string outcome option" where
  "placeholder_value os fuel section vars f_section f_option cw =
     (if f_section = ''ENV:'' then Some (resolve_env os f_option f_section, cw)
      else if f_section = ''SHELL:'' then Some (resolve_shell os f_option cw)
      else if f_section = ''RPM:'' then Some (resolve_rpm os f_option cw)
      else get os fuel (if butlast f_section = [] then section else butlast f_section)
             (Some f_option) False vars cw)"







subsection \<open>The macro cache over a run\<close>

text \<open>
  A command evaluates the macro \<open>m\<close> when it runs the builder with \<open>--eval\<close> on an
  expression one of whose pieces between bars is \<open>%{?m}\<close>: the command \<open>get\<close> builds for a
  single macro, and the one the start-up code builds for several.
\<close>

definition evaluates :: "string \<Rightarrow> command \<Rightarrow> bool" where
  "evaluates m cmd =
     (case cmd of
        Argv [exe, flag, expr] \<Rightarrow>
          exe = RPMBUILD_EXE \<and> flag = ''--eval'' \<and> (''%{?'' @ m @ ''}'') \<in> set (split CHR ''|'' expr)
      | _ \<Rightarrow> False)"

definition evaluations :: "string \<Rightarrow> world \<Rightarrow> nat" where
  "evaluations m w = length (filter (evaluates m) (started w))"

definition at_most_once :: "world \<Rightarrow> bool" where
  "at_most_once w \<longleftrightarrow> (\<forall>m. evaluations m w \<le> 1)"

text \<open>Every macro the builder was run for is in the dictionary at the address \<open>r\<close>.\<close>

definition cached_when_evaluated :: "nat \<Rightarrow> world \<Rightarrow> bool" where
  "cached_when_evaluated r w \<longleftrightarrow> (\<forall>m. 0 < evaluations m w \<longrightarrow> dicts w r m \<noteq> None)"

text \<open>
  From \<open>w\<close> to \<open>w'\<close> every entry of the dictionary kept its value and its macro was not
  evaluated again.
\<close>

definition cache_kept :: "nat \<Rightarrow> world \<Rightarrow> world \<Rightarrow> bool" where
  "cache_kept r w w' \<longleftrightarrow>
     (\<forall>m v. dicts w r m = Some v \<longrightarrow> dicts w' r m = Some v \<and> evaluations m w' = evaluations m w)"

definition macro_step :: "nat \<Rightarrow> bool \<Rightarrow> world \<Rightarrow> world \<Rightarrow> bool" where
  "macro_step r ok w w' \<longleftrightarrow>
     cache_kept r w w' \<and>
     (at_most_once w \<and> cached_when_evaluated r w \<longrightarrow>
        at_most_once w' \<and> (ok \<longrightarrow> cached_when_evaluated r w'))"



subsection \<open>Start-up\<close>










subsection \<open>Paths, files and repositories\<close>

text \<open>
  \<open>os.path.join\<close> and \<open>os.path.basename\<close> for paths written with forward slashes (the
  OS/2 variant of \<open>os.path\<close> differs by drive letters and backslashes, which the paths
  here do not use). \<open>os.path.join (a, b, c)\<close> is \<open>path_join (path_join a b) c\<close>.
\<close>

definition path_join :: "string \<Rightarrow> string \<Rightarrow> string" where
  "path_join a b =
     (if prefix ''/'' b then b
      else if a = [] \<or> suffix ''/'' a then a @ b
      else a @ ''/'' @ b)"

definition basename :: "string \<Rightarrow> string" where
  "basename p = rev (takeWhile (\<lambda>c. c \<noteq> CHR ''/'') (rev p))"

text \<open>
  The file system: the regular files by path, each with its bytes and its modification
  time, and the paths that are directories. Times are the \<open>float\<close> values of Python,
  taken as real numbers: the script compares them for equality only. The size of a file
  is the number of its bytes.
\<close>

record disk_file =
  content :: string
  mtime :: real

record filesystem =
  files :: "string \<rightharpoonup> disk_file"
  isdir :: "string \<Rightarrow> bool"

definition isfile :: "filesystem \<Rightarrow> string \<Rightarrow> bool" where
  "isfile fs path \<longleftrightarrow> files fs path \<noteq> None"

text \<open>
  \<open>os.path.getmtime\<close> and \<open>os.path.getsize\<close> of a regular file; for any other path the
  \<open>OSError\<close> of a missing file, which carries the path.
\<close>

definition getmtime :: "filesystem \<Rightarrow> string \<Rightarrow> exn + real" where
  "getmtime fs path =
     (case files fs path of
        None \<Rightarrow> Inl (OSError_at 2 ''No such file or directory'' path)
      | Some f \<Rightarrow> Inr (mtime f))"

definition getsize :: "filesystem \<Rightarrow> string \<Rightarrow> exn + int" where
  "getsize fs path =
     (case files fs path of
        None \<Rightarrow> Inl (OSError_at 2 ''No such file or directory'' path)
      | Some f \<Rightarrow> Inr (int (length (content f))))"

text \<open>
  \<open>shutil.copy2 (src, dst)\<close> into a directory \<open>dst\<close>: the copy has the name of the source
  and its bytes and modification time.
\<close>

definition copy2 :: "filesystem \<Rightarrow> string \<Rightarrow> string \<Rightarrow> exn + filesystem" where
  "copy2 fs src dst =
     (case files fs src of
        None \<Rightarrow> Inl (IOError 2 ''No such file or directory'')
      | Some f \<Rightarrow> Inr (fs\<lparr>files := (files fs)(path_join dst (basename src) \<mapsto> f)\<rparr>))"

text \<open>
  The dictionary \<open>read_group_config\<close> returns: \<open>base\<close>, \<open>repos\<close>, and under the key
  \<open>repo.NAME\<close> the dictionary of a repository (\<open>base\<close>, \<open>rpm\<close>, \<open>srpm\<close>, \<open>zip\<close>, \<open>log\<close>, and
  \<open>layout\<close>). The local build area is under \<open>'repo.%s' % None\<close>, that is \<open>repo.None\<close>. A
  key that is missing is a \<open>KeyError\<close>.
\<close>

record group_config =
  base :: string
  repos :: "string list"
  repo_dicts :: "string \<rightharpoonup> (string \<rightharpoonup> string)"

definition repo_key :: "string option \<Rightarrow> string" where
  "repo_key repo = ''repo.'' @ (case repo of None \<Rightarrow> ''None'' | Some name \<Rightarrow> name)"

definition repo_item :: "group_config \<Rightarrow> string option \<Rightarrow> string \<Rightarrow> exn + string" where
  "repo_item group_config repo key =
     (case repo_dicts group_config (repo_key repo) of
        None \<Rightarrow> Inl (KeyError (repo_key repo))
      | Some d \<Rightarrow> (case d key of None \<Rightarrow> Inl (KeyError key) | Some v \<Rightarrow> Inr v))"

text \<open>\<open>resolve_path (name, arch, repo = None, group_config = None)\<close>.\<close>

definition resolve_path :: "string \<Rightarrow> string \<Rightarrow> string option \<Rightarrow> group_config \<Rightarrow> exn + string" where
  "resolve_path name arch repo group_config =
     (if arch \<in> set [''srpm'', ''zip'']
      then map_sum id (\<lambda>d. path_join d name) (repo_item group_config repo arch)
      else map_sum id (\<lambda>d. path_join (path_join d arch) name) (repo_item group_config repo ''rpm''))"

subsection \<open>\<open>move_cmd\<close>: which repositories\<close>

text \<open>
  The loop \<open>for repo in repos: if os.path.isfile (.../summary): from_repo = repo\<close>: it has
  no \<open>break\<close>, so the last repository with a summary file stays in \<open>from_repo\<close>.
\<close>

fun find_summary :: "filesystem \<Rightarrow> group_config \<Rightarrow> string \<Rightarrow> string list \<Rightarrow> string option \<Rightarrow>
    exn + string option" where
  "find_summary fs group_config spec_base [] from_repo = Inr from_repo"
| "find_summary fs group_config spec_base (repo # rest) from_repo =
     (case repo_item group_config (Some repo) ''log'' of
        Inl e \<Rightarrow> Inl e
      | Inr log_dir \<Rightarrow>
          find_summary fs group_config spec_base rest
            (if isfile fs (path_join (path_join log_dir spec_base) ''summary'')
             then Some repo else from_repo))"

text \<open>\<open>repos.index (x)\<close> for an \<open>x\<close> that is in the list.\<close>

definition index :: "string list \<Rightarrow> string \<Rightarrow> nat" where
  "index xs x = length (takeWhile (\<lambda>y. y \<noteq> x) xs)"

text \<open>
  The part of \<open>move_cmd\<close> that settles \<open>from_repo\<close> and \<open>to_repo\<close> for one spec, from
  \<open>is_upload = g_args.COMMAND == 'upload'\<close> to the second \<open>No repository\<close> check. The
  function starts with
  \<^verbatim>\<open>
  if not is_upload:
    # No need in per-spec INI loading
    raise Error ('Not implemented!')
  \<close>
  and the \<open>upload\<close> command is the only one of the command line that runs it. The value
  of \<open>read_group_config (group, config)\<close> is the argument \<open>group_config\<close>. The result is
  \<open>(from_repo, to_repo)\<close>, where the \<open>from_repo\<close> \<open>None\<close> is the local build area.
\<close>

definition move_cmd_repos :: "string \<Rightarrow> string \<Rightarrow> string \<Rightarrow> group_config \<Rightarrow> filesystem \<Rightarrow>
    exn + (string option \<times> string)" where
  "move_cmd_repos COMMAND GROUP spec_base group_config fs =
     (let is_upload = (COMMAND = ''upload'') in
      if \<not> is_upload then Inl (Error_call ''Not implemented!'' [])
      else
        (let parts = map Some (split_max 2 CHR '':'' GROUP) @ [None, None];
             group = the (parts ! 0);
             to_repo = parts ! 1;
             from_repo = parts ! 2
         in if is_upload \<and> \<not> falsy from_repo
            then Inl (Error_call (''Extra input in GROUP spec: `'' @ the from_repo @ ''`'') [])
            else
              (case (if \<not> is_upload \<and> falsy from_repo
                     then find_summary fs group_config spec_base (repos group_config) from_repo
                     else Inr from_repo) of
                 Inl e \<Rightarrow> Inl e
               | Inr from_repo \<Rightarrow>
                   if \<not> falsy from_repo \<and> the from_repo \<notin> set (repos group_config)
                   then Inl (Error_call (''No repository `'' @ the from_repo @ ''` in group `'' @
                                         group @ ''`'') [])
                   else
                     (case (if falsy to_repo then
                              (if \<not> falsy from_repo then
                                 (let i = index (repos group_config) (the from_repo)
                                  in if i < length (repos group_config)
                                     then (if i + 1 < length (repos group_config)
                                           then Inr (repos group_config ! (i + 1))
                                           else Inl IndexError)
                                     else Inl (Error_call (''No repository after `'' @ the from_repo @
                                                 ''` in group `'' @ group @ ''`'') []))
                               else (case repos group_config of
                                       [] \<Rightarrow> Inl IndexError
                                     | first # _ \<Rightarrow> Inr first))
                            else Inr (the to_repo)) of
                        Inl e \<Rightarrow> Inl e
                      | Inr to_repo \<Rightarrow>
                          if to_repo \<notin> set (repos group_config)
                          then Inl (Error_call (''No repository `'' @ to_repo @ ''` in group `'' @
                                                group @ ''`'') [])
                          else Inr (from_repo, to_repo)))))"

subsection \<open>\<open>move_cmd\<close>: copying the packages\<close>

text \<open>
  The dictionary \<open>read_build_summary\<close> returns is the list of its keys and values in the
  order \<open>rpms.keys ()\<close> gives them. Under the name of a target the value is a list of
  paths; under \<open>srpm\<close> and \<open>zip\<close> it is one path, which is a list of one path here.
\<close>

type_synonym rpms = "(string \<times> string list) list"

text \<open>
  The inner loop \<open>for src, dst in rpms_to_copy\<close>, with the list of the \<open>shutil.copy2\<close> calls
  made so far as its last argument.
\<close>

fun copy_listed :: "filesystem \<Rightarrow> (string \<times> string) list \<Rightarrow> (string \<times> string) list \<Rightarrow>
    exn option \<times> filesystem \<times> (string \<times> string) list" where
  "copy_listed fs [] copied = (None, fs, copied)"
| "copy_listed fs ((src, dst) # rest) copied =
     (if \<not> isdir fs dst then (Some (Error_init dst (Some ''Not a directory'') None), fs, copied)
      else (case copy2 fs src dst of
              Inl e \<Rightarrow> (Some e, fs, copied)
            | Inr fs' \<Rightarrow> copy_listed fs' rest (copied @ [(src, dst)])))"

text \<open>
  The loop \<open>for arch in rpms.keys ()\<close> under the comment \<open># Copy RPMs.\<close> In the source the
  loop over \<open>rpms_to_copy\<close> is indented into it, so each round copies everything that has
  been listed so far. The arguments are the dictionary of the target repository, the
  file system, the entries still to come, \<open>rpms_to_copy\<close> and the copies made; the result
  has the exception, if any, and the last three as the loop left them.
\<close>

fun copy_rpms :: "(string \<rightharpoonup> string) \<Rightarrow> filesystem \<Rightarrow> rpms \<Rightarrow>
    (string \<times> string) list \<Rightarrow> (string \<times> string) list \<Rightarrow>
    exn option \<times> filesystem \<times> (string \<times> string) list \<times> (string \<times> string) list" where
  "copy_rpms to_repo_config fs [] rpms_to_copy copied = (None, fs, rpms_to_copy, copied)"
| "copy_rpms to_repo_config fs ((arch, paths) # rest) rpms_to_copy copied =
     (case (if arch \<in> set [''srpm'', ''zip''] then
              (case to_repo_config arch of
                 None \<Rightarrow> Inl (KeyError arch)
               | Some dst \<Rightarrow> Inr (rpms_to_copy @ map (\<lambda>src. (src, dst)) paths))
            else
              (case to_repo_config ''rpm'' of
                 None \<Rightarrow> Inl (KeyError ''rpm'')
               | Some d \<Rightarrow> Inr (rpms_to_copy @ map (\<lambda>src. (src, path_join d arch)) paths))) of
        Inl e \<Rightarrow> (Some e, fs, rpms_to_copy, copied)
      | Inr listed \<Rightarrow>
          (case copy_listed fs listed copied of
             (Some e, fs', copied') \<Rightarrow> (Some e, fs', listed, copied')
           | (None, fs', copied') \<Rightarrow> copy_rpms to_repo_config fs' rest listed copied'))"

text \<open>Examples: the group \<open>dev\<close>, \<open>staging\<close>, \<open>public\<close> under \<open>/repo\<close>, and a local build.\<close>

definition layout :: "string \<Rightarrow> (string \<rightharpoonup> string)" where
  "layout dir = [''base'' \<mapsto> dir, ''rpm'' \<mapsto> dir @ ''/rpm'', ''srpm'' \<mapsto> dir @ ''/srpm'',
                 ''zip'' \<mapsto> dir @ ''/zip'', ''log'' \<mapsto> dir @ ''/log'']"

definition three_repos :: group_config where
  "three_repos =
     \<lparr>base = ''/repo'', repos = [''dev'', ''staging'', ''public''],
      repo_dicts = [''repo.dev'' \<mapsto> layout ''/repo/dev'', ''repo.staging'' \<mapsto> layout ''/repo/staging'',
                    ''repo.public'' \<mapsto> layout ''/repo/public'', ''repo.None'' \<mapsto> layout ''/build'']\<rparr>"

definition a_file :: disk_file where
  "a_file = \<lparr>content = ''12345'', mtime = 100\<rparr>"

text \<open>A summary file exists in \<open>dev\<close> and nowhere else; every directory of \<open>dev\<close> exists.\<close>

definition summary_in_dev :: filesystem where
  "summary_in_dev =
     \<lparr>files = [''/repo/dev/log/foo/summary'' \<mapsto> a_file],
      isdir = (\<lambda>p. p \<in> set [''/repo/dev/rpm/i686'', ''/repo/dev/srpm'', ''/repo/dev/zip''])\<rparr>"

text \<open>
  A local build of \<open>foo\<close>: the source package, the archive and one package for \<open>i686\<close>, as
  \<open>read_build_summary\<close> lists them.
\<close>

definition built :: filesystem where
  "built =
     \<lparr>files = [''/build/srpm/foo.src.rpm'' \<mapsto> a_file, ''/build/zip/foo.zip'' \<mapsto> a_file,
               ''/build/rpm/i686/foo.i686.rpm'' \<mapsto> a_file],
      isdir = (\<lambda>p. p \<in> set [''/repo/dev/rpm/i686'', ''/repo/dev/srpm'', ''/repo/dev/zip''])\<rparr>"

definition built_rpms :: rpms where
  "built_rpms =
     [(''srpm'', [''/build/srpm/foo.src.rpm'']), (''zip'', [''/build/zip/foo.zip'']),
      (''i686'', [''/build/rpm/i686/foo.i686.rpm''])]"

subsection \<open>\<open>read_build_summary\<close>\<close>

text \<open>
  The two patterns the summary is checked against are sequences of character classes,
  each taken once, one or more times (\<open>+\<close>) or any number of times (\<open>*\<close>). \<open>re_match\<close> says
  whether the whole string matches such a sequence, which is what
  \<open>re.match (r'^%s$' % PATTERN, s)\<close> says of a string \<open>s\<close> that \<open>strip ()\<close> has left
  without a line feed at its end.
\<close>

datatype quantifier = Once | Plus | Star

fun re_match :: "((char \<Rightarrow> bool) \<times> quantifier) list \<Rightarrow> string \<Rightarrow> bool" where
  "re_match [] s = (s = [])"
| "re_match ((p, Once) # r) [] = False"
| "re_match ((p, Once) # r) (c # t) = (p c \<and> re_match r t)"
| "re_match ((p, Plus) # r) [] = False"
| "re_match ((p, Plus) # r) (c # t) = (p c \<and> re_match ((p, Star) # r) t)"
| "re_match ((p, Star) # r) [] = re_match r []"
| "re_match ((p, Star) # r) (c # t) = (re_match r (c # t) \<or> (p c \<and> re_match ((p, Star) # r) t))"

text \<open>\<open>VER_FULL_REGEX = '\d+[.\d]*-\w+[.\w]*\.\w+'\<close>.\<close>

definition VER_FULL_REGEX :: "((char \<Rightarrow> bool) \<times> quantifier) list" where
  "VER_FULL_REGEX =
     [(isdigit, Plus), (\<lambda>c. c = CHR ''.'' \<or> isdigit c, Star), (\<lambda>c. c = CHR ''-'', Once),
      (isword, Plus), (\<lambda>c. c = CHR ''.'' \<or> isword c, Star), (\<lambda>c. c = CHR ''.'', Once),
      (isword, Plus)]"

text \<open>\<open>BUILD_USER_REGEX = '[a-zA-Z0-9_.-]+@[a-zA-Z0-9_.-]+'\<close>.\<close>

definition BUILD_USER_REGEX :: "((char \<Rightarrow> bool) \<times> quantifier) list" where
  "BUILD_USER_REGEX =
     [(\<lambda>c. isword c \<or> c = CHR ''.'' \<or> c = CHR ''-'', Plus), (\<lambda>c. c = CHR ''@'', Once),
      (\<lambda>c. isword c \<or> c = CHR ''.'' \<or> c = CHR ''-'', Plus)]"

text \<open>
  \<open>float (s)\<close> and \<open>int (s)\<close> of a string: the number, or \<open>None\<close> where Python raises
  \<open>ValueError\<close>. Which strings Python takes for numbers is left to these two functions.
\<close>

record conversions =
  py_float :: "string \<Rightarrow> real option"
  py_int :: "string \<Rightarrow> int option"

text \<open>
  \<open>repr (s)\<close> of a byte string, which \<open>str (e)\<close> uses for the file name of an
  \<open>IOError\<close> or \<open>OSError\<close>: \<open>[Errno 2] No such file or directory: 'path'\<close>.
\<close>

definition hex_digit :: "nat \<Rightarrow> char" where
  "hex_digit n = (if n < 10 then char_of (48 + n) else char_of (87 + n))"

definition repr_char :: "char \<Rightarrow> char \<Rightarrow> string" where
  "repr_char quote c =
     (if c = quote \<or> c = CHR 0x5C then [CHR 0x5C, c]
      else if c = CHR 0x09 then [CHR 0x5C, CHR ''t'']
      else if c = CHR 0x0A then [CHR 0x5C, CHR ''n'']
      else if c = CHR 0x0D then [CHR 0x5C, CHR ''r'']
      else if (of_char c :: nat) < 32 \<or> 127 \<le> (of_char c :: nat)
      then [CHR 0x5C, CHR ''x'', hex_digit (of_char c div 16), hex_digit (of_char c mod 16)]
      else [c])"

definition repr :: "string \<Rightarrow> string" where
  "repr s =
     (let quote = (if CHR 0x27 \<in> set s \<and> CHR 0x22 \<notin> set s then CHR 0x22 else CHR 0x27)
      in [quote] @ concat (map (repr_char quote) s) @ [quote])"

definition str_EnvironmentError_at :: "int \<Rightarrow> string \<Rightarrow> string \<Rightarrow> string" where
  "str_EnvironmentError_at errno strerror filename =
     ''[Errno '' @ show_int errno @ ''] '' @ strerror @ '': '' @ repr filename"

text \<open>
  \<open>open (path, 'r')\<close> and reading: the text of a regular file, or the \<open>IOError\<close> of a
  path that is a directory or does not exist (its file name is \<open>path\<close>). Reading what has
  been opened is taken to succeed.
\<close>

definition open_read :: "filesystem \<Rightarrow> string \<Rightarrow> exn + string" where
  "open_read fs path =
     (if isdir fs path then Inl (IOError 21 ''Is a directory'')
      else (case files fs path of
              None \<Rightarrow> Inl (IOError 2 ''No such file or directory'')
            | Some f \<Rightarrow> Inr (content f)))"

text \<open>
  The lines of a text, each without the line feed that ends it: the script applies
  \<open>strip ()\<close> to every line it reads, which removes the line feed. \<open>readline\<close> is
  \<open>f.readline ()\<close> at the line with the given index, the empty string after the last
  line.
\<close>

definition file_lines :: "string \<Rightarrow> string list" where
  "file_lines text = (let ps = split (CHR 0x0A) text in if last ps = [] then butlast ps else ps)"

definition readline :: "string list \<Rightarrow> nat \<Rightarrow> string" where
  "readline lines i = (if i < length lines then lines ! i else [])"

text \<open>
  The handlers of the inner \<open>try\<close>, for an exception raised when the line counter
  \<open>ln\<close> of the source is \<open>lnum\<close>:
  \<^verbatim>\<open>
  except (IOError, OSError) as e:
    raise Error ('%s:%s:\n%s' % (summary, ln, str (e)))
  except ValueError:
    raise Error ('%s:%s' % (summary, ln), 'Invalid field type or number of fields')
  \<close>
  An \<open>Error\<close> or a \<open>KeyError\<close> is none of these and passes.
\<close>

definition summary_error :: "string \<Rightarrow> nat \<Rightarrow> exn \<Rightarrow> exn" where
  "summary_error summary lnum e =
     (case e of
        IOError errno strerror \<Rightarrow>
          Error_init (summary @ '':'' @ show_nat lnum @ '':'' @ [CHR 0x0A] @
                      str_EnvironmentError errno strerror) None None
      | OSError errno strerror \<Rightarrow>
          Error_init (summary @ '':'' @ show_nat lnum @ '':'' @ [CHR 0x0A] @
                      str_EnvironmentError errno strerror) None None
      | OSError_at errno strerror filename \<Rightarrow>
          Error_init (summary @ '':'' @ show_nat lnum @ '':'' @ [CHR 0x0A] @
                      str_EnvironmentError_at errno strerror filename) None None
      | ValueError \<Rightarrow>
          Error_init (summary @ '':'' @ show_nat lnum)
            (Some ''Invalid field type or number of fields'') None
      | _ \<Rightarrow> e)"

text \<open>
  The loop \<open>for line in f\<close> over the lines after the second. The result is the dictionary
  \<open>d\<close>, or the exception that ends the loop with the value \<open>ln\<close> has at that moment
  (\<open>lnum\<close> here); \<open>mtime_field\<close> and \<open>size_field\<close> are the strings \<open>mtime\<close> and \<open>size\<close>
  of the line, \<open>recorded_mtime\<close> and \<open>recorded_size\<close> the numbers the source puts under
  the same names. The two messages about a difference are the literals of the source:
  nothing is substituted for their \<open>%s\<close>.
\<close>

fun read_records :: "conversions \<Rightarrow> filesystem \<Rightarrow> string option \<Rightarrow> group_config \<Rightarrow> string \<Rightarrow>
    nat \<Rightarrow> string list \<Rightarrow> (string \<rightharpoonup> string list) \<Rightarrow> (exn \<times> nat) + (string \<rightharpoonup> string list)" where
  "read_records C fs repo group_config summary lnum [] d = Inr d"
| "read_records C fs repo group_config summary lnum (line # rest) d =
     (let lnum = lnum + 1 in
      case split CHR ''|'' (strip line) of
        [arch, name, mtime_field, size_field] \<Rightarrow>
          (case py_float C mtime_field of
             None \<Rightarrow> Inl (ValueError, lnum)
           | Some recorded_mtime \<Rightarrow>
               (case py_int C size_field of
                  None \<Rightarrow> Inl (ValueError, lnum)
                | Some recorded_size \<Rightarrow>
                    (case resolve_path name arch repo group_config of
                       Inl e \<Rightarrow> Inl (e, lnum)
                     | Inr path \<Rightarrow>
                         (case getmtime fs path of
                            Inl e \<Rightarrow> Inl (e, lnum)
                          | Inr actual_mtime \<Rightarrow>
                              if actual_mtime \<noteq> recorded_mtime
                              then Inl (Error_init (summary @ '':'' @ show_nat lnum)
                                          (Some ([CHR 0x0A] @
                                             ''Recorded mtime differs from actual for `%s`''))
                                          None, lnum)
                              else
                                (case getsize fs path of
                                   Inl e \<Rightarrow> Inl (e, lnum)
                                 | Inr actual_size \<Rightarrow>
                                     if actual_size \<noteq> recorded_size
                                     then Inl (Error_init (summary @ '':'' @ show_nat lnum)
                                                 (Some ([CHR 0x0A] @
                                                    ''Recorded size differs from actual for `%s`''))
                                                 None, lnum)
                                     else read_records C fs repo group_config summary lnum rest
                                            (if arch \<in> set [''srpm'', ''zip'']
                                             then d(arch \<mapsto> [path])
                                             else (case d arch of
                                                     Some paths \<Rightarrow> d(arch \<mapsto> paths @ [path])
                                                   | None \<Rightarrow> d(arch \<mapsto> [path]))))))))
      | _ \<Rightarrow> Inl (ValueError, lnum))"

text \<open>
  \<open>read_build_summary (spec_base, repo = None, group_config = None)\<close>. The result is
  \<open>(ver_full, build_user, build_time, d)\<close>; under \<open>srpm\<close> and \<open>zip\<close> the dictionary has one
  path, which is a list of one path here.
\<close>

definition read_build_summary :: "conversions \<Rightarrow> filesystem \<Rightarrow> string \<Rightarrow> string option \<Rightarrow>
    group_config \<Rightarrow> exn + (string \<times> string \<times> real \<times> (string \<rightharpoonup> string list))" where
  "read_build_summary C fs spec_base repo group_config =
     (case repo_item group_config repo ''log'' of
        Inl e \<Rightarrow> Inl e
      | Inr log_dir \<Rightarrow>
          (let log_base = path_join log_dir spec_base;
               summary = path_join log_base ''summary''
           in case open_read fs summary of
                Inl (IOError errno strerror) \<Rightarrow>
                  if errno = 2
                  then Inl (Error_call (''No build summary for `'' @ spec_base @ ''` ('' @
                                        summary @ '')'')
                              [(''hint'', ''Use `build` command to build the packages first.'')])
                  else Inl (Error_init (''Cannot read build summary for `'' @ spec_base @ ''`:'' @
                                        [CHR 0x0A] @
                                        str_EnvironmentError_at errno strerror summary) None None)
              | Inl e \<Rightarrow> Inl e
              | Inr text \<Rightarrow>
                  (let lines = file_lines text;
                       ver_full = strip (readline lines 0)
                   in if \<not> re_match VER_FULL_REGEX ver_full
                      then Inl (Error_init (''Invalid version specification: `'' @ ver_full @ ''`'')
                                  None None)
                      else
                        (case split CHR ''|'' (strip (readline lines 1)) of
                           [build_user, build_time] \<Rightarrow>
                             if \<not> re_match BUILD_USER_REGEX build_user
                             then Inl (Error_init (''Invalid build user specification: `'' @
                                                   build_user @ ''`'') None None)
                             else
                               (case py_float C build_time of
                                  None \<Rightarrow> Inl (summary_error summary 2 ValueError)
                                | Some build_time \<Rightarrow>
                                    (case read_records C fs repo group_config summary 2
                                            (drop 2 lines) Map.empty of
                                       Inl (e, lnum) \<Rightarrow> Inl (summary_error summary lnum e)
                                     | Inr d \<Rightarrow> Inr (ver_full, build_user, build_time, d)))
                         | _ \<Rightarrow> Inl (summary_error summary 2 ValueError)))))"

text \<open>
  Conversions for the examples: numerals of digits, with one point in them for \<open>float\<close>.
  Python's \<open>float\<close> and \<open>int\<close> give these values on such strings.
\<close>

definition digits_value :: "string \<Rightarrow> nat" where
  "digits_value s = foldl (\<lambda>n c. 10 * n + (of_char c - 48)) 0 s"

definition decimal :: conversions where
  "decimal =
     \<lparr>py_float = (\<lambda>s. let whole = takeWhile isdigit s; rest = dropWhile isdigit s
                       in if whole \<noteq> [] \<and> rest \<noteq> [] \<and> hd rest = CHR ''.'' \<and> list_all isdigit (tl rest)
                          then Some (real (digits_value whole) +
                                     real (digits_value (tl rest)) / 10 ^ length (tl rest))
                          else None),
      py_int = (\<lambda>s. if s \<noteq> [] \<and> list_all isdigit s then Some (int (digits_value s)) else None)\<rparr>"

text \<open>
  A local build of \<open>foo\<close> with its summary: the source package is recorded with the
  modification time 100 and the size 5. In \<open>as_written\<close> the file is as recorded, in
  \<open>touched\<close> its time has changed, in \<open>grown\<close> its size, and in \<open>lost\<close> it is gone.
\<close>

definition foo_summary :: disk_file where
  "foo_summary =
     \<lparr>content = ''1.0-1.oc00'' @ [CHR 0x0A] @ ''builder@host|1000.0'' @ [CHR 0x0A] @
                ''srpm|foo-1.0-1.oc00.src.rpm|100.0|5'' @ [CHR 0x0A],
      mtime = 1000\<rparr>"

definition as_written :: filesystem where
  "as_written =
     \<lparr>files = [''/build/log/foo/summary'' \<mapsto> foo_summary,
               ''/build/srpm/foo-1.0-1.oc00.src.rpm'' \<mapsto> \<lparr>content = ''12345'', mtime = 100\<rparr>],
      isdir = (\<lambda>p. p \<in> set [''/build/log/foo'', ''/build/srpm''])\<rparr>"

definition touched :: filesystem where
  "touched =
     \<lparr>files = [''/build/log/foo/summary'' \<mapsto> foo_summary,
               ''/build/srpm/foo-1.0-1.oc00.src.rpm'' \<mapsto> \<lparr>content = ''12345'', mtime = 200\<rparr>],
      isdir = (\<lambda>p. p \<in> set [''/build/log/foo'', ''/build/srpm''])\<rparr>"

definition grown :: filesystem where
  "grown =
     \<lparr>files = [''/build/log/foo/summary'' \<mapsto> foo_summary,
               ''/build/srpm/foo-1.0-1.oc00.src.rpm'' \<mapsto> \<lparr>content = ''123456'', mtime = 100\<rparr>],
      isdir = (\<lambda>p. p \<in> set [''/build/log/foo'', ''/build/srpm''])\<rparr>"

definition lost :: filesystem where
  "lost =
     \<lparr>files = [''/build/log/foo/summary'' \<mapsto> foo_summary],
      isdir = (\<lambda>p. p \<in> set [''/build/log/foo'', ''/build/srpm''])\<rparr>"

section \<open>Theorems\<close>

subsection \<open>The depth counter of \<open>Config.get\<close>\<close>

text \<open>
  C9. The claim is that a \<open>get\<close> that returns leaves the depth counter as it found it.
  The code adds one per match inside the loop and takes one off per call after the loop,
  so the two do not balance: reading the value \<open>i686 pentium4\<close>, which holds no
  placeholder, takes the counter from 0 to -1, and reading a value with two environment
  placeholders takes it from 0 to 1.
\<close>

theorem get_depth_not_restored:
  "map_option (\<lambda>(r, c, w). (r, get_depth c))
     (get bare_os 10 ''general'' (Some ''archs'') False None
        (new_config [((''general'', ''archs''), ''i686 pentium4'')], new_world))
   = Some (Inr ''i686 pentium4'', - 1)
   \<and> map_option (\<lambda>(r, c, w). (r, get_depth c))
     (get (bare_os\<lparr>environ := [''A'' \<mapsto> ''x'', ''B'' \<mapsto> ''y'']\<rparr>) 10
        ''general'' (Some ''dirs'') False None
        (new_config [((''general'', ''dirs''), ''${ENV:A}/${ENV:B}'')], new_world))
   = Some (Inr ''x/y'', 1)"
  by code_simp

subsection \<open>Shell placeholders\<close>

text \<open>
  C7. The claim is that a shell placeholder whose command exits with a status other than
  0 makes \<open>get\<close> fail with a configuration error. \<open>shell_output\<close> and \<open>get\<close> only catch
  \<open>OSError\<close> and \<open>RunError\<close>: for the value \<open>${SHELL:false}\<close> the
  \<open>CalledProcessError\<close> of \<open>subprocess.check_output\<close> leaves \<open>get\<close> as it is, and it is
  none of the configuration errors.
\<close>

theorem get_shell_nonzero_exit:
  "map_option fst
     (get bare_os 10 ''general'' (Some ''x'') False None
        (new_config [((''general'', ''x''), ''${SHELL:false}'')], new_world))
   = Some (Inl (CalledProcessError 1 (Shell ''false'')))
   \<and> is_ConfigError (CalledProcessError 1 (Shell ''false'')) = False"
  by code_simp

subsection \<open>Which exit status fails a pipeline\<close>

lemma start_rest_all_started:
  "(\<And>j. j < length cs \<Longrightarrow> popen P (i + j) (cs ! j) = Inr (status (i + j))) \<Longrightarrow>
   start_rest P i cs cmd rc =
     Inr (last (cmd # cs), if cs = [] then rc else status (i + length cs - 1))"
proof (induction cs arbitrary: i cmd rc)
  case Nil
  then show ?case by simp
next
  case (Cons c cs)
  have c: "popen P i c = Inr (status i)"
    using Cons.prems [of 0] by simp
  have rest: "\<And>j. j < length cs \<Longrightarrow> popen P (Suc i + j) (cs ! j) = Inr (status (Suc i + j))"
    using Cons.prems [of "Suc j" for j] by simp
  show ?case
    using Cons.IH [OF rest, of c "status i"] c by (cases cs) auto
qed

lemma run_pipe_all_started:
  assumes "commands \<noteq> []"
    and "\<And>i. i < length commands \<Longrightarrow> popen P i (commands ! i) = Inr (status i)"
  shows "fst (run_pipe P G commands regex file written) =
     (if status 0 \<noteq> 0
      then Inl (RunError (join '' '' (last commands)) (''exit code '' @ show_int (status 0)) None None)
      else Inr (if falsy regex then []
                else concat (map (re_findall P (the regex)) (readlines P commands))))"
proof -
  obtain cmd0 rest where cs: "commands = cmd0 # rest"
    using assms(1) by (cases commands) auto
  have first: "popen P 0 cmd0 = Inr (status 0)"
    using assms(2) [of 0] cs by simp
  have "\<And>j. j < length rest \<Longrightarrow> popen P (Suc 0 + j) (rest ! j) = Inr (status (Suc 0 + j))"
    using assms(2) [of "Suc j" for j] cs by simp
  from start_rest_all_started [of rest P "Suc 0" status cmd0 "status 0", OF this]
  have rest: "start_rest P (Suc 0) rest cmd0 (status 0) =
     Inr (last (cmd0 # rest), if rest = [] then status 0 else status (Suc 0 + length rest - 1))" .
  show ?thesis
    unfolding run_pipe_def cs
    by (simp add: first rest Let_def RunError_init_def del: last.simps)
qed

text \<open>
  C1, as the code has it. Of a pipeline of two or more commands that all start,
  \<open>run_pipe\<close> waits for the last and then for the first, and the status of the first is
  the one it keeps: the call ends in an exception exactly when the first command's exit
  status is not 0, whatever the statuses of the commands after it, and the exception is
  a \<open>RunError\<close>.
\<close>

theorem run_pipe_fails_iff_first_fails:
  assumes "2 \<le> length commands"
    and "\<forall>i<length commands. popen P i (commands ! i) = Inr (status i)"
  shows "((\<exists>e. fst (run_pipe P G commands regex file written) = Inl e) \<longleftrightarrow> status 0 \<noteq> 0)
       \<and> (\<forall>e. fst (run_pipe P G commands regex file written) = Inl e \<longrightarrow>
             (\<exists>cmd msg hint log_file. e = RunError cmd msg hint log_file))"
proof -
  have ne: "commands \<noteq> []" using assms(1) by auto
  have st: "\<And>i. i < length commands \<Longrightarrow> popen P i (commands ! i) = Inr (status i)"
    using assms(2) by simp
  show ?thesis
    by (simp add: run_pipe_all_started [OF ne st])
qed

theorem run_pipe_fails_iff_first_fails_witness:
  "2 \<le> length unpack
   \<and> popen (two_stage 3 0) 0 (unpack ! 0) = Inr 3
   \<and> popen (two_stage 3 0) 1 (unpack ! 1) = Inr 0
   \<and> (\<exists>cmd msg hint log_file.
         fst (run_pipe (two_stage 3 0) quiet unpack None None []) =
           Inl (RunError cmd msg hint log_file))"
proof -
  have len: "2 \<le> length unpack"
    by (simp add: unpack_def)
  have all: "\<forall>i<length unpack. popen (two_stage 3 0) i (unpack ! i) =
               Inr ((\<lambda>i. if i = 0 then 3 else 0) i)"
    by (simp add: unpack_def two_stage_def)
  from run_pipe_fails_iff_first_fails [OF len all, of quiet None None "[]"]
  have "\<exists>cmd msg hint log_file.
      fst (run_pipe (two_stage 3 0) quiet unpack None None []) =
        Inl (RunError cmd msg hint log_file)"
    by auto
  then show ?thesis
    using len by (simp add: two_stage_def unpack_def)
qed

text \<open>
  C1, as the claim states it, fails: with the first command exiting 0 and the last one
  exiting 2 the call returns its (empty) list of lines, and with the first exiting 1 and
  the last 0 it raises.
\<close>

theorem run_pipe_last_status_counterexample:
  "popen (two_stage 0 2) 1 (unpack ! 1) = Inr 2
   \<and> fst (run_pipe (two_stage 0 2) quiet unpack None None []) = Inr []
   \<and> popen (two_stage 1 0) 1 (unpack ! 1) = Inr 0
   \<and> fst (run_pipe (two_stage 1 0) quiet unpack None None []) =
       Inl (RunError ''cpio.exe -idm'' ''exit code 1'' None None)"
  by code_simp

subsection \<open>The logging wrapper\<close>

text \<open>
  What \<open>run_pipe\<close> can raise, and that it only adds to what was written. The wrapper
  writes its opening line first and its closing line last whatever \<open>run_pipe\<close> does, and
  it never ends with an \<open>Error\<close>: the call \<open>Error (..., log_file = log_file)\<close> passes a
  keyword that \<open>Error.__init__\<close> does not have.
\<close>

lemma run_pipe_raises:
  "fst (run_pipe P G commands regex file written) = Inl e \<Longrightarrow>
   e = IndexError \<or> (\<exists>cmd msg. e = RunError cmd msg None None)"
  by (auto simp: run_pipe_def Let_def RunError_init_def
           split: list.splits sum.splits prod.splits if_splits)

lemma run_pipe_written:
  "\<exists>ys. snd (run_pipe P G commands regex file written) = written @ ys"
  by (auto simp: run_pipe_def Let_def split: list.splits sum.splits prod.splits)

lemma Error_call_log_file:
  "Error_call m [(''log_file'', f)] =
     TypeError (''__init__() got an unexpected keyword argument '' @ [CHR 0x27] @ ''log_file'' @ [CHR 0x27])"
  by (simp add: Error_call_def)

lemma run_pipe_log_never_Error:
  "fst (run_pipe_log P G T open_error log_file commands regex written) \<noteq> Inl (Error p m h)"
proof (cases open_error)
  case (Some err)
  then show ?thesis
    by (cases err) (simp add: run_pipe_log_def)
next
  case None
  obtain r w2 where rp: "run_pipe P G commands regex (Some (File log_file))
      (written @ [(File log_file, ''['' @ start_ts T @ '', '' @
          join '' | '' (map (join '' '') commands) @ '']'' @ [CHR 0x0A])]) = (r, w2)"
    by (cases "run_pipe P G commands regex (Some (File log_file))
      (written @ [(File log_file, ''['' @ start_ts T @ '', '' @
          join '' | '' (map (join '' '') commands) @ '']'' @ [CHR 0x0A])])") auto
  show ?thesis
  proof (cases r)
    case (Inr lines)
    then show ?thesis
      using None rp by (simp add: run_pipe_log_def Let_def)
  next
    case (Inl e)
    then have "e = IndexError \<or> (\<exists>cmd msg. e = RunError cmd msg None None)"
      using run_pipe_raises [of P G commands regex "Some (File log_file)" _ e] rp
      by (metis fst_conv)
    then show ?thesis
      using None rp Inl by (auto simp: run_pipe_log_def Let_def Error_call_log_file)
  qed
qed

lemma run_pipe_log_brackets:
  "\<exists>mid msg. snd (run_pipe_log P G T None log_file commands regex written) =
     written @
     [(File log_file, ''['' @ start_ts T @ '', '' @
         join '' | '' (map (join '' '') commands) @ '']'' @ [CHR 0x0A])] @ mid @
     [(File log_file, ''['' @ end_ts T @ '', '' @ msg @ '', '' @ elapsed T @ '' s]'' @ [CHR 0x0A])]"
proof -
  let ?w1 = "written @ [(File log_file, ''['' @ start_ts T @ '', '' @
          join '' | '' (map (join '' '') commands) @ '']'' @ [CHR 0x0A])]"
  obtain ys where ys: "snd (run_pipe P G commands regex (Some (File log_file)) ?w1) = ?w1 @ ys"
    using run_pipe_written by blast
  obtain r where rp: "run_pipe P G commands regex (Some (File log_file)) ?w1 = (r, ?w1 @ ys)"
    using ys by (cases "run_pipe P G commands regex (Some (File log_file)) ?w1") auto
  show ?thesis
    using rp
    by (auto simp: run_pipe_log_def Let_def split: sum.splits exn.splits)
qed

text \<open>
  C6. A single command that exits with status 1: both lines are in the log, and the call
  ends with a \<open>TypeError\<close>, where the claim has an \<open>Error\<close> that carries the path of the
  log file.
\<close>

theorem run_pipe_log_failure_is_TypeError:
  "run_pipe_log (one_stage 1) quiet five_seconds None ''i686.log''
     [[''rpmbuild.exe'', ''-bb'', ''x.spec'']] (Some ''^Wrote: +(.+)$'') [] =
   (Inl (TypeError (''__init__() got an unexpected keyword argument '' @
                    [CHR 0x27] @ ''log_file'' @ [CHR 0x27])),
    [(File ''i686.log'', ''[2017-05-01 10:00:00, rpmbuild.exe -bb x.spec]'' @ [CHR 0x0A]),
     (File ''i686.log'', ''error: Bad exit status'' @ [CHR 0x0A]),
     (File ''i686.log'', ''[2017-05-01 10:00:05, exit code 1, 0:00:05 s]'' @ [CHR 0x0A])])"
  by code_simp

subsection \<open>\<open>Config.get\<close> returns\<close>

text \<open>The two equations of the loop and the equation of \<open>get\<close>, as the proofs use them.\<close>

lemma get_loop_Cons:
  "get_loop os n s opt vars ((fs, fo) # ms) ret (c, w) =
     (if get_depth c + 1 < MAX_INTERPOLATION_DEPTH then
        (case placeholder_value os n s vars fs fo (c\<lparr>get_depth := get_depth c + 1\<rparr>, w) of
           None \<Rightarrow> None
         | Some (Inl e, cw2) \<Rightarrow> Some (Inl (reraise s opt fs fo e), cw2)
         | Some (Inr sub, cw2) \<Rightarrow>
             get_loop os n s opt vars ms (replace ret (''${'' @ fs @ fo @ ''}'') sub) cw2)
      else Some (Inl (InterpolationDepthError opt s ret), c\<lparr>get_depth := get_depth c + 1\<rparr>, w))"
  by (simp add: placeholder_value_def Let_def split: option.splits sum.splits prod.splits)

lemma get_Suc:
  "get os (Suc n) section option raw vars (c, w) =
     (case split_name section option of
        Inl e \<Rightarrow> Some (Inl e, c, w)
      | Inr (s, opt) \<Rightarrow>
          (case parser_get c s opt vars of
             Inl e \<Rightarrow> Some (Inl e, c, w)
           | Inr ret \<Rightarrow>
               if raw then Some (Inr ret, c, w)
               else
                 (case get_loop os n s opt vars (findall_placeholders ret) ret (c, w) of
                    None \<Rightarrow> None
                  | Some (Inl e, c', w') \<Rightarrow> Some (Inl e, c', w')
                  | Some (Inr ret', c', w') \<Rightarrow>
                      Some (Inr ret', c'\<lparr>get_depth := get_depth c' - 1\<rparr>, w'))))"
  by simp

lemmas get_loop_rules = get_loop.simps(1) get_loop_Cons

declare get.simps [simp del] get_loop.simps [simp del]

lemma resolve_shell_config: "resolve_shell os fo (c, w) = (r, c2, w2) \<Longrightarrow> c2 = c"
  by (auto simp: resolve_shell_def)

lemma resolve_rpm_config: "resolve_rpm os fo (c, w) = (r, c2, w2) \<Longrightarrow> c2 = c"
  by (auto simp: resolve_rpm_def Let_def split: option.splits sum.splits)

text \<open>The value of a placeholder that is not a plain one leaves the object as it is.\<close>

lemma placeholder_value_external:
  assumes "fs \<in> {''ENV:'', ''SHELL:'', ''RPM:''}"
  shows "\<exists>r w2. placeholder_value os n s vars fs fo (c, w) = Some (r, c, w2)"
proof -
  obtain r1 c1 w1 where a: "resolve_shell os fo (c, w) = (r1, c1, w1)"
    by (cases "resolve_shell os fo (c, w)") auto
  obtain r2 c2 w2 where b: "resolve_rpm os fo (c, w) = (r2, c2, w2)"
    by (cases "resolve_rpm os fo (c, w)") auto
  show ?thesis
    using assms a b resolve_shell_config [OF a] resolve_rpm_config [OF b]
    by (auto simp: placeholder_value_def)
qed

lemma placeholder_value_plain:
  assumes "fs \<notin> {''ENV:'', ''SHELL:'', ''RPM:''}"
  shows "placeholder_value os n s vars fs fo cw =
           get os n (if butlast fs = [] then s else butlast fs) (Some fo) False vars cw"
  using assms by (simp add: placeholder_value_def)

text \<open>
  A call that returns a value has lowered the counter by at most one, and a loop that
  ends has not lowered it at all.
\<close>

lemma get_loop_depth_lower:
  assumes get: "\<And>s opt raw c w v c' w'.
      get os n s opt raw vars (c, w) = Some (Inr v, c', w') \<Longrightarrow> get_depth c - 1 \<le> get_depth c'"
  shows "get_loop os n s opt vars ms ret (c, w) = Some (Inr v, c', w') \<Longrightarrow>
         get_depth c \<le> get_depth c'"
proof (induction ms arbitrary: ret c w)
  case Nil
  then show ?case by (simp add: get_loop_rules)
next
  case (Cons m ms)
  obtain fs fo where m: "m = (fs, fo)" by (cases m)
  let ?c1 = "c\<lparr>get_depth := get_depth c + 1\<rparr>"
  from Cons.prems obtain sub c2 w2 where
    pv: "placeholder_value os n s vars fs fo (?c1, w) = Some (Inr sub, c2, w2)" and
    rest: "get_loop os n s opt vars ms (replace ret (''${'' @ fs @ fo @ ''}'') sub) (c2, w2) =
             Some (Inr v, c', w')"
    by (auto simp: m get_loop_rules split: if_splits option.splits sum.splits)
  have "get_depth c \<le> get_depth c2"
  proof (cases "fs \<in> {''ENV:'', ''SHELL:'', ''RPM:''}")
    case True
    from placeholder_value_external [OF True, of os n s vars fo ?c1 w] pv
    have "c2 = ?c1" by auto
    then show ?thesis by simp
  next
    case False
    from pv get [of _ _ _ ?c1 w sub c2 w2] show ?thesis
      by (simp add: placeholder_value_plain [OF False])
  qed
  with Cons.IH [OF rest] show ?case by simp
qed

lemma get_depth_lower:
  "get os n s opt raw vars (c, w) = Some (Inr v, c', w') \<Longrightarrow> get_depth c - 1 \<le> get_depth c'"
proof (induction n arbitrary: s opt raw c w v c' w')
  case 0
  then show ?case by (simp add: get.simps)
next
  case (Suc n)
  from Suc.prems show ?case
    by (auto simp: get_Suc split: sum.splits prod.splits if_splits option.splits
             dest!: get_loop_depth_lower [OF Suc.IH, rotated])
qed

lemmas get_loop_depth = get_loop_depth_lower [OF get_depth_lower]



text \<open>\<open>get\<close> changes neither the sections of the object nor its reference to the macros.\<close>

lemma placeholder_value_fields_external:
  assumes "fs \<in> {''ENV:'', ''SHELL:'', ''RPM:''}"
    and "placeholder_value os n s vars fs fo (c, w) = Some (r, c2, w2)"
  shows "c2 = c"
  using placeholder_value_external [OF assms(1), of os n s vars fo c w] assms(2) by auto

lemma get_loop_fields:
  assumes get: "\<And>s opt raw c w r c' w'.
      get os n s opt raw vars (c, w) = Some (r, c', w') \<Longrightarrow>
      parser_get c' = parser_get c \<and> rpm_macros c' = rpm_macros c"
  shows "get_loop os n s opt vars ms ret (c, w) = Some (r, c', w') \<Longrightarrow>
         parser_get c' = parser_get c \<and> rpm_macros c' = rpm_macros c"
proof (induction ms arbitrary: ret c w)
  case Nil
  then show ?case by (simp add: get_loop_rules)
next
  case (Cons m ms)
  obtain fs fo where m: "m = (fs, fo)" by (cases m)
  let ?c1 = "c\<lparr>get_depth := get_depth c + 1\<rparr>"
  show ?case
  proof (cases "get_depth c + 1 < MAX_INTERPOLATION_DEPTH")
    case False
    then show ?thesis using Cons.prems by (auto simp: m get_loop_rules)
  next
    case True
    from Cons.prems True obtain r2 c2 w2 where
      pv: "placeholder_value os n s vars fs fo (?c1, w) = Some (r2, c2, w2)"
      by (auto simp: m get_loop_rules split: option.splits)
    have c2: "parser_get c2 = parser_get c \<and> rpm_macros c2 = rpm_macros c"
    proof (cases "fs \<in> {''ENV:'', ''SHELL:'', ''RPM:''}")
      case True
      from placeholder_value_fields_external [OF True pv] show ?thesis by simp
    next
      case False
      from pv get [of _ _ _ ?c1 w r2 c2 w2] show ?thesis
        by (simp add: placeholder_value_plain [OF False])
    qed
    show ?thesis
    proof (cases r2)
      case (Inl e)
      then show ?thesis using Cons.prems True pv c2 by (auto simp: m get_loop_rules)
    next
      case (Inr sub)
      then have "get_loop os n s opt vars ms (replace ret (''${'' @ fs @ fo @ ''}'') sub) (c2, w2) =
          Some (r, c', w')"
        using Cons.prems True pv by (simp add: m get_loop_rules)
      from Cons.IH [OF this] c2 show ?thesis by simp
    qed
  qed
qed

lemma get_fields:
  "get os n s opt raw vars (c, w) = Some (r, c', w') \<Longrightarrow>
   parser_get c' = parser_get c \<and> rpm_macros c' = rpm_macros c"
proof (induction n arbitrary: s opt raw c w r c' w')
  case 0
  then show ?case by (simp add: get.simps)
next
  case (Suc n)
  from Suc.prems show ?case
    by (auto simp: get_Suc split: sum.splits prod.splits if_splits option.splits
             dest!: get_loop_fields [OF Suc.IH, rotated])
qed

lemmas get_loop_fields' = get_loop_fields [OF get_fields]













text \<open>
  At the maximum the first match raises the depth error, which names the option and the
  section of the call; and a value whose first placeholder names the value itself ends
  in that error from any depth.
\<close>

lemma reraise_depth_error [simp]:
  "reraise s opt fs fo (InterpolationDepthError a b c) = InterpolationDepthError a b c"
  by (simp add: reraise_def)



text \<open>More fuel does not change a result.\<close>

lemma get_loop_more_fuel:
  assumes get: "\<And>s opt raw c w r. get os n s opt raw vars (c, w) = Some r \<Longrightarrow>
      get os (Suc n) s opt raw vars (c, w) = Some r"
  shows "get_loop os n s opt vars ms ret (c, w) = Some r \<Longrightarrow>
         get_loop os (Suc n) s opt vars ms ret (c, w) = Some r"
proof (induction ms arbitrary: ret c w)
  case Nil
  then show ?case by (simp add: get_loop_rules)
next
  case (Cons m ms)
  obtain fs fo where m: "m = (fs, fo)" by (cases m)
  let ?c1 = "c\<lparr>get_depth := get_depth c + 1\<rparr>"
  show ?case
  proof (cases "get_depth c + 1 < MAX_INTERPOLATION_DEPTH")
    case False
    then show ?thesis using Cons.prems by (simp add: m get_loop_rules)
  next
    case True
    from Cons.prems True obtain r2 c2 w2 where
      pv: "placeholder_value os n s vars fs fo (?c1, w) = Some (r2, c2, w2)"
      by (auto simp: m get_loop_rules split: option.splits)
    have pv': "placeholder_value os (Suc n) s vars fs fo (?c1, w) = Some (r2, c2, w2)"
      using pv get [of _ _ _ ?c1 w "(r2, c2, w2)"]
      by (auto simp: placeholder_value_def split: if_splits)
    show ?thesis
    proof (cases r2)
      case (Inl e)
      then show ?thesis using Cons.prems True pv pv' by (simp add: m get_loop_rules)
    next
      case (Inr sub)
      then have "get_loop os n s opt vars ms (replace ret (''${'' @ fs @ fo @ ''}'') sub) (c2, w2) =
          Some r"
        using Cons.prems True pv by (simp add: m get_loop_rules)
      from Cons.IH [OF this] show ?thesis
        using True pv' Inr by (simp add: m get_loop_rules)
    qed
  qed
qed

lemma get_Suc_fuel:
  "get os n s opt raw vars (c, w) = Some r \<Longrightarrow> get os (Suc n) s opt raw vars (c, w) = Some r"
proof (induction n arbitrary: s opt raw c w r)
  case 0
  then show ?case by (simp add: get.simps)
next
  case (Suc n)
  have loop: "get_loop os (Suc n) s' opt' vars ms ret (c, w) = Some r'"
    if "get_loop os n s' opt' vars ms ret (c, w) = Some r'" for s' opt' ms ret r'
    using get_loop_more_fuel [of os n vars s' opt' ms ret c w r'] Suc.IH that by blast
  show ?case
  proof (cases "split_name s opt")
    case (Inl e)
    then show ?thesis using Suc.prems by (simp add: get_Suc)
  next
    case (Inr name)
    obtain s' opt' where name: "name = (s', opt')" by (cases name)
    show ?thesis
    proof (cases "parser_get c s' opt' vars")
      case (Inl e)
      then show ?thesis using Suc.prems Inr name by (simp add: get_Suc)
    next
      case ret: (Inr ret)
      show ?thesis
      proof (cases raw)
        case True
        then show ?thesis using Suc.prems Inr name ret by (simp add: get_Suc)
      next
        case False
        from Suc.prems Inr name ret False obtain r' where
          r': "get_loop os n s' opt' vars (findall_placeholders ret) ret (c, w) = Some r'"
          by (auto simp: get_Suc [of os n] split: option.splits)
        from loop [OF r'] r' Suc.prems Inr name ret False show ?thesis
          by (simp add: get_Suc)
      qed
    qed
  qed
qed

lemma get_more_fuel:
  "get os n s opt raw vars (c, w) = Some r \<Longrightarrow> get os (n + k) s opt raw vars (c, w) = Some r"
  by (induction k) (auto dest: get_Suc_fuel)














lemma get_self_reference_example:
  "map_option (\<lambda>(r, c, w). (r, get_depth c))
     (get bare_os 10 ''s'' (Some ''a'') False None
        (new_config [((''s'', ''a''), ''${a}'')], new_world))
   = Some (Inl (InterpolationDepthError ''a'' ''s'' ''${a}''), 10)"
  by code_simp

subsection \<open>Each macro is evaluated once\<close>





lemma evaluates_Shell [simp]: "\<not> evaluates m (Shell x)"
  by (simp add: evaluates_def)


lemma evaluations_dicts [simp]: "evaluations m (w\<lparr>dicts := d\<rparr>) = evaluations m w"
  by (simp add: evaluations_def)



lemma macro_step_weaken: "macro_step r True w w' \<Longrightarrow> macro_step r ok w w'"
  by (auto simp: macro_step_def)













subsection \<open>The repositories of \<open>move_cmd\<close>\<close>

lemma split_max_2_plain: "CHR '':'' \<notin> set g \<Longrightarrow> split_max 2 CHR '':'' g = [g]"
  by (simp add: numeral_2_eq_2)

lemma split_max_2_named:
  assumes "CHR '':'' \<notin> set g" and "CHR '':'' \<notin> set name"
  shows "split_max 2 CHR '':'' (g @ '':'' @ name) = [g, name]"
proof -
  have g: "\<forall>c\<in>set g. c \<noteq> CHR '':''"
    using assms(1) by auto
  have "takeWhile (\<lambda>c. c \<noteq> CHR '':'') (g @ '':'' @ name) = g"
    using g by (simp add: takeWhile_tail)
  moreover have "dropWhile (\<lambda>c. c \<noteq> CHR '':'') (g @ '':'' @ name) = '':'' @ name"
    using g by (simp add: dropWhile_append)
  ultimately show ?thesis
    using assms(2) by (simp add: numeral_2_eq_2)
qed

lemma Error_call_plain: "Error_call m [] = Error None m None"
  by (simp add: Error_call_def Error_init_def falsy_def)

lemma move_cmd_repos_not_upload:
  "COMMAND \<noteq> ''upload'' \<Longrightarrow>
   move_cmd_repos COMMAND GROUP spec_base group_config fs =
     Inl (Error None ''Not implemented!'' None)"
  by (simp add: move_cmd_repos_def Error_call_plain)

lemma move_cmd_repos_default:
  assumes "CHR '':'' \<notin> set grp" and "repos group_config = first # rest"
  shows "move_cmd_repos ''upload'' grp spec_base group_config fs = Inr (None, first)"
  using assms by (simp add: move_cmd_repos_def split_max_2_plain falsy_def Let_def numeral_2_eq_2)

lemma move_cmd_repos_named:
  assumes "CHR '':'' \<notin> set grp" and "CHR '':'' \<notin> set name" and "name \<noteq> []"
    and "name \<in> set (repos group_config)"
  shows "move_cmd_repos ''upload'' (grp @ '':'' @ name) spec_base group_config fs =
    Inr (None, name)"
proof -
  have "split_max 2 CHR '':'' (grp @ CHR '':'' # name) = [grp, name]"
    using split_max_2_named [OF assms(1,2)] by simp
  then show ?thesis
    using assms(3,4) by (simp add: move_cmd_repos_def falsy_def Let_def numeral_2_eq_2)
qed

lemma move_cmd_repos_from_local:
  assumes "move_cmd_repos COMMAND GROUP spec_base group_config fs = Inr (from_repo, to_repo)"
  shows "COMMAND = ''upload'' \<and> falsy from_repo \<and> to_repo \<in> set (repos group_config)"
proof -
  have up: "COMMAND = ''upload''"
    using assms by (cases "COMMAND = ''upload''") (simp_all add: move_cmd_repos_def)
  show ?thesis
    using assms up
    by (auto simp: move_cmd_repos_def Let_def split: if_splits sum.splits list.splits)
qed

text \<open>
  C3. The claim is that a promotion with no destination takes the first repository of the
  group that holds a summary as \<open>from\<close> and the one after it as \<open>to\<close>. The code that would
  do so is in \<open>move_cmd\<close>, but the function raises \<open>Error ('Not implemented!')\<close> first for
  every command other than \<open>upload\<close>, and for \<open>upload\<close> it never looks for a summary in
  the repositories. What holds instead: a command other than \<open>upload\<close> ends with that
  \<open>Error\<close>; whenever the two repositories are settled, the command is \<open>upload\<close>,
  \<open>from_repo\<close> names no repository (it is \<open>None\<close>, the local build area, or empty) and
  \<open>to_repo\<close> is a repository of the group; with no destination in \<open>GROUP\<close> the
  destination is the first repository of the group, and a destination named after the
  colon is taken when it is in the group.
\<close>

theorem move_cmd_repos_upload_only:
  "(COMMAND \<noteq> ''upload'' \<longrightarrow>
      move_cmd_repos COMMAND GROUP spec_base group_config fs =
        Inl (Error None ''Not implemented!'' None)) \<and>
   (\<forall>from_repo to_repo.
      move_cmd_repos COMMAND GROUP spec_base group_config fs = Inr (from_repo, to_repo) \<longrightarrow>
      COMMAND = ''upload'' \<and> falsy from_repo \<and> to_repo \<in> set (repos group_config)) \<and>
   (COMMAND = ''upload'' \<and> CHR '':'' \<notin> set GROUP \<and> repos group_config \<noteq> [] \<longrightarrow>
      move_cmd_repos COMMAND GROUP spec_base group_config fs =
        Inr (None, hd (repos group_config))) \<and>
   (\<forall>grp name.
      COMMAND = ''upload'' \<and> GROUP = grp @ '':'' @ name \<and> CHR '':'' \<notin> set grp \<and>
      CHR '':'' \<notin> set name \<and> name \<noteq> [] \<and> name \<in> set (repos group_config) \<longrightarrow>
      move_cmd_repos COMMAND GROUP spec_base group_config fs = Inr (None, name))"
proof (intro conjI allI impI)
  assume "COMMAND \<noteq> ''upload''"
  then show "move_cmd_repos COMMAND GROUP spec_base group_config fs =
      Inl (Error None ''Not implemented!'' None)"
    by (rule move_cmd_repos_not_upload)
next
  fix from_repo to_repo
  assume r: "move_cmd_repos COMMAND GROUP spec_base group_config fs = Inr (from_repo, to_repo)"
  from move_cmd_repos_from_local [OF r]
  show "COMMAND = ''upload''" "falsy from_repo" "to_repo \<in> set (repos group_config)"
    by simp_all
next
  assume a: "COMMAND = ''upload'' \<and> CHR '':'' \<notin> set GROUP \<and> repos group_config \<noteq> []"
  then obtain first rest where "repos group_config = first # rest"
    by (cases "repos group_config") auto
  with a move_cmd_repos_default [of GROUP group_config first rest spec_base fs]
  show "move_cmd_repos COMMAND GROUP spec_base group_config fs =
      Inr (None, hd (repos group_config))"
    by simp
next
  fix grp name
  assume "COMMAND = ''upload'' \<and> GROUP = grp @ '':'' @ name \<and> CHR '':'' \<notin> set grp \<and>
      CHR '':'' \<notin> set name \<and> name \<noteq> [] \<and> name \<in> set (repos group_config)"
  with move_cmd_repos_named [of grp name group_config spec_base fs]
  show "move_cmd_repos COMMAND GROUP spec_base group_config fs = Inr (None, name)"
    by simp
qed

theorem move_cmd_repos_upload_only_witness:
  "move_cmd_repos ''promote'' ''grp'' ''foo'' three_repos summary_in_dev =
     Inl (Error None ''Not implemented!'' None) \<and>
   move_cmd_repos ''upload'' ''grp'' ''foo'' three_repos summary_in_dev = Inr (None, ''dev'') \<and>
   falsy None \<and> ''dev'' \<in> set (repos three_repos) \<and>
   move_cmd_repos ''upload'' ''grp:staging'' ''foo'' three_repos summary_in_dev =
     Inr (None, ''staging'')"
proof -
  have not_upload: "''promote'' \<noteq> ''upload''"
    by simp
  have plain: "''upload'' = ''upload'' \<and> CHR '':'' \<notin> set ''grp'' \<and> repos three_repos \<noteq> []"
    by (simp add: three_repos_def)
  have named: "''upload'' = ''upload'' \<and> ''grp:staging'' = ''grp'' @ '':'' @ ''staging'' \<and>
      CHR '':'' \<notin> set ''grp'' \<and> CHR '':'' \<notin> set ''staging'' \<and> ''staging'' \<noteq> [] \<and>
      ''staging'' \<in> set (repos three_repos)"
    by (simp add: three_repos_def)
  from move_cmd_repos_upload_only [of "''promote''" "''grp''" "''foo''" three_repos summary_in_dev]
    not_upload
  have 1: "move_cmd_repos ''promote'' ''grp'' ''foo'' three_repos summary_in_dev =
      Inl (Error None ''Not implemented!'' None)"
    by blast
  from move_cmd_repos_upload_only [of "''upload''" "''grp''" "''foo''" three_repos summary_in_dev]
    plain
  have 2: "move_cmd_repos ''upload'' ''grp'' ''foo'' three_repos summary_in_dev =
      Inr (None, hd (repos three_repos))"
    by blast
  from move_cmd_repos_upload_only [of "''upload''" "''grp''" "''foo''" three_repos summary_in_dev] 2
  have 3: "falsy None \<and> hd (repos three_repos) \<in> set (repos three_repos)"
    by blast
  from move_cmd_repos_upload_only
    [of "''upload''" "''grp:staging''" "''foo''" three_repos summary_in_dev] named
  have 4: "move_cmd_repos ''upload'' ''grp:staging'' ''foo'' three_repos summary_in_dev =
      Inr (None, ''staging'')"
    by blast
  have hd: "hd (repos three_repos) = ''dev''"
    by (simp add: three_repos_def)
  from 1 2 3 4 show ?thesis
    unfolding hd by simp
qed

text \<open>
  The group \<open>dev\<close>, \<open>staging\<close>, \<open>public\<close> with a summary of \<open>foo\<close> in \<open>dev\<close> only: a command
  other than \<open>upload\<close> does not get to the repositories, and \<open>upload\<close> goes from the local
  build area to \<open>dev\<close>. Neither settles on \<open>dev\<close> and \<open>staging\<close>.
\<close>

theorem move_cmd_repos_not_dev_to_staging:
  "isfile summary_in_dev ''/repo/dev/log/foo/summary'' \<and>
   \<not> isfile summary_in_dev ''/repo/staging/log/foo/summary'' \<and>
   \<not> isfile summary_in_dev ''/repo/public/log/foo/summary'' \<and>
   repos three_repos = [''dev'', ''staging'', ''public''] \<and>
   move_cmd_repos ''move'' ''grp'' ''foo'' three_repos summary_in_dev \<noteq>
     Inr (Some ''dev'', ''staging'') \<and>
   move_cmd_repos ''upload'' ''grp'' ''foo'' three_repos summary_in_dev \<noteq>
     Inr (Some ''dev'', ''staging'')"
  by code_simp

subsection \<open>The copies of \<open>move_cmd\<close>\<close>

lemma copy2_isdir: "copy2 fs src dst = Inr fs' \<Longrightarrow> isdir fs' = isdir fs"
  by (auto simp: copy2_def split: option.splits)

lemma copy_listed_isdir:
  "copy_listed fs xs copied = (e, fs', copied') \<Longrightarrow> isdir fs' = isdir fs"
proof (induction xs arbitrary: fs copied)
  case Nil
  then show ?case by simp
next
  case (Cons x xs)
  obtain src dst where x: "x = (src, dst)" by (cases x)
  show ?case
  proof (cases "isdir fs dst")
    case False
    then show ?thesis using Cons.prems x by simp
  next
    case True
    show ?thesis
    proof (cases "copy2 fs src dst")
      case (Inl err)
      then show ?thesis using Cons.prems x True by simp
    next
      case (Inr fs1)
      then have "copy_listed fs1 xs (copied @ [(src, dst)]) = (e, fs', copied')"
        using Cons.prems x True by simp
      from Cons.IH [OF this] copy2_isdir [OF Inr] show ?thesis by simp
    qed
  qed
qed

text \<open>The copies never make a directory.\<close>

lemma copy_rpms_isdir:
  "copy_rpms to_repo_config fs rpms rpms_to_copy copied = (e, fs', listed, copied') \<Longrightarrow>
   isdir fs' = isdir fs"
proof (induction rpms arbitrary: fs rpms_to_copy copied)
  case Nil
  then show ?case by simp
next
  case (Cons entry rest)
  obtain arch paths where entry: "entry = (arch, paths)" by (cases entry)
  let ?listed = "if arch \<in> set [''srpm'', ''zip'']
      then (case to_repo_config arch of
              None \<Rightarrow> Inl (KeyError arch)
            | Some dst \<Rightarrow> Inr (rpms_to_copy @ map (\<lambda>src. (src, dst)) paths))
      else (case to_repo_config ''rpm'' of
              None \<Rightarrow> Inl (KeyError ''rpm'')
            | Some d \<Rightarrow> Inr (rpms_to_copy @ map (\<lambda>src. (src, path_join d arch)) paths))"
  show ?case
  proof (cases ?listed)
    case (Inl err)
    then show ?thesis using Cons.prems entry by (simp del: set_simps)
  next
    case (Inr l)
    obtain e1 fs1 c1 where step: "copy_listed fs l copied = (e1, fs1, c1)"
      by (cases "copy_listed fs l copied") auto
    have fs1: "isdir fs1 = isdir fs"
      by (rule copy_listed_isdir [OF step])
    show ?thesis
    proof (cases e1)
      case (Some err)
      then show ?thesis using Cons.prems entry Inr step fs1 by (simp del: set_simps)
    next
      case None
      then have "copy_rpms to_repo_config fs1 rest l c1 = (e, fs', listed, copied')"
        using Cons.prems entry Inr step by (simp del: set_simps)
      from Cons.IH [OF this] fs1 show ?thesis by simp
    qed
  qed
qed

text \<open>A destination that is no directory ends the copies with an exception.\<close>

lemma copy_listed_missing_dir:
  "(src, dst) \<in> set xs \<Longrightarrow> \<not> isdir fs dst \<Longrightarrow> fst (copy_listed fs xs copied) \<noteq> None"
proof (induction xs arbitrary: fs copied)
  case Nil
  then show ?case by simp
next
  case (Cons x xs)
  obtain s d where x: "x = (s, d)" by (cases x)
  show ?case
  proof (cases "isdir fs d")
    case False
    then show ?thesis using x by simp
  next
    case True
    then have in_xs: "(src, dst) \<in> set xs"
      using Cons.prems x by auto
    show ?thesis
    proof (cases "copy2 fs s d")
      case (Inl err)
      then show ?thesis using x True by simp
    next
      case (Inr fs1)
      have "\<not> isdir fs1 dst"
        using copy2_isdir [OF Inr] Cons.prems(2) by simp
      from Cons.IH [OF in_xs this] show ?thesis
        using x True Inr by simp
    qed
  qed
qed

text \<open>The inner loop, when it ends without an exception, has copied its whole list.\<close>

lemma copy_listed_copied:
  "copy_listed fs xs copied = (None, fs', copied') \<Longrightarrow> copied' = copied @ xs"
proof (induction xs arbitrary: fs copied)
  case Nil
  then show ?case by simp
next
  case (Cons x xs)
  obtain s d where x: "x = (s, d)" by (cases x)
  from Cons.prems x obtain fs1 where
    "copy_listed fs1 xs (copied @ [(s, d)]) = (None, fs', copied')"
    by (auto split: if_splits sum.splits)
  from Cons.IH [OF this] x show ?case by simp
qed

text \<open>
  What has been listed before a round of the outer loop is copied again in that round
  and in every round after it.
\<close>

lemma copy_rpms_repeats:
  "copy_rpms to_repo_config fs rpms rpms_to_copy copied = (None, fs', listed, copied') \<Longrightarrow>
   \<exists>zs. copied' = copied @ zs \<and>
        (\<forall>p\<in>set rpms_to_copy. length rpms * count_list rpms_to_copy p \<le> count_list zs p)"
proof (induction rpms arbitrary: fs rpms_to_copy copied)
  case Nil
  then show ?case by simp
next
  case (Cons entry rest)
  obtain arch paths where entry: "entry = (arch, paths)" by (cases entry)
  let ?listed = "if arch \<in> set [''srpm'', ''zip'']
      then (case to_repo_config arch of
              None \<Rightarrow> Inl (KeyError arch)
            | Some dst \<Rightarrow> Inr (rpms_to_copy @ map (\<lambda>src. (src, dst)) paths))
      else (case to_repo_config ''rpm'' of
              None \<Rightarrow> Inl (KeyError ''rpm'')
            | Some d \<Rightarrow> Inr (rpms_to_copy @ map (\<lambda>src. (src, path_join d arch)) paths))"
  show ?case
  proof (cases ?listed)
    case (Inl err)
    then show ?thesis using Cons.prems entry by (simp del: set_simps)
  next
    case (Inr l)
    then obtain new where l: "l = rpms_to_copy @ new"
      by (auto split: if_splits option.splits)
    obtain e1 fs1 c1 where step: "copy_listed fs l copied = (e1, fs1, c1)"
      by (cases "copy_listed fs l copied") auto
    show ?thesis
    proof (cases e1)
      case (Some err)
      then show ?thesis using Cons.prems entry Inr step by (simp del: set_simps)
    next
      case None
      then have rest: "copy_rpms to_repo_config fs1 rest l c1 = (None, fs', listed, copied')"
        using Cons.prems entry Inr step by (simp del: set_simps)
      have c1: "c1 = copied @ l"
        using copy_listed_copied step None by simp
      from Cons.IH [OF rest] obtain zs where
        zs: "copied' = c1 @ zs" "\<forall>p\<in>set l. length rest * count_list l p \<le> count_list zs p"
        by blast
      have "\<forall>p\<in>set rpms_to_copy.
          length (entry # rest) * count_list rpms_to_copy p \<le> count_list (l @ zs) p"
      proof
        fix p
        assume "p \<in> set rpms_to_copy"
        then have a: "length rest * count_list l p \<le> count_list zs p"
          using zs(2) l by simp
        have b: "count_list rpms_to_copy p \<le> count_list l p"
          using l by simp
        then have "length rest * count_list rpms_to_copy p \<le> length rest * count_list l p"
          by (rule mult_le_mono2)
        then have "length rest * count_list rpms_to_copy p \<le> count_list zs p"
          using a by (rule le_trans)
        with b show
          "length (entry # rest) * count_list rpms_to_copy p \<le> count_list (l @ zs) p"
          by simp
      qed
      then show ?thesis
        using zs(1) c1 by auto
    qed
  qed
qed

text \<open>
  C8. The claim is that an upload copies each file of the summary to its destination
  exactly once, and that a destination that is no directory ends the upload with an
  \<open>Error\<close> instead of being made. The second part holds (\<open>copy_rpms_isdir\<close>,
  \<open>copy_listed_missing_dir\<close>). The first does not: the loop over \<open>rpms_to_copy\<close> is
  inside the loop over the keys of the summary, and \<open>rpms_to_copy\<close> is not emptied
  between the rounds (\<open>copy_rpms_repeats\<close>). For a build with a source package, an
  archive and one package for \<open>i686\<close>, the upload to \<open>dev\<close> ends without an exception after
  six calls of \<open>shutil.copy2\<close>: three of the source package, two of the archive and one
  of the \<open>i686\<close> package.
\<close>

theorem copy_rpms_copies_again:
  "(case copy_rpms (layout ''/repo/dev'') built built_rpms [] [] of
      (e, fs, rpms_to_copy, copied) \<Rightarrow> (e, rpms_to_copy, copied)) =
     (None,
      [(''/build/srpm/foo.src.rpm'', ''/repo/dev/srpm''),
       (''/build/zip/foo.zip'', ''/repo/dev/zip''),
       (''/build/rpm/i686/foo.i686.rpm'', ''/repo/dev/rpm/i686'')],
      [(''/build/srpm/foo.src.rpm'', ''/repo/dev/srpm''),
       (''/build/srpm/foo.src.rpm'', ''/repo/dev/srpm''),
       (''/build/zip/foo.zip'', ''/repo/dev/zip''),
       (''/build/srpm/foo.src.rpm'', ''/repo/dev/srpm''),
       (''/build/zip/foo.zip'', ''/repo/dev/zip''),
       (''/build/rpm/i686/foo.i686.rpm'', ''/repo/dev/rpm/i686'')])"
  by code_simp

subsection \<open>The integrity check of \<open>read_build_summary\<close>\<close>

text \<open>
  A summary that is read without an exception has passed the check: every line after the
  second has four fields, and the file it names exists with the recorded time and size.
\<close>

lemma read_records_checked:
  "read_records C fs repo group_config summary lnum lines d = Inr d' \<Longrightarrow> line \<in> set lines \<Longrightarrow>
   \<exists>arch name mtime_field size_field path recorded_mtime recorded_size.
     split CHR ''|'' (strip line) = [arch, name, mtime_field, size_field] \<and>
     py_float C mtime_field = Some recorded_mtime \<and> py_int C size_field = Some recorded_size \<and>
     resolve_path name arch repo group_config = Inr path \<and>
     getmtime fs path = Inr recorded_mtime \<and> getsize fs path = Inr recorded_size"
proof (induction lines arbitrary: lnum d)
  case Nil
  then show ?case by simp
next
  case (Cons l rest)
  from Cons.prems(1) obtain arch name mtime_field size_field path recorded_mtime recorded_size d1
    where l: "split CHR ''|'' (strip l) = [arch, name, mtime_field, size_field]"
      "py_float C mtime_field = Some recorded_mtime" "py_int C size_field = Some recorded_size"
      "resolve_path name arch repo group_config = Inr path"
      "getmtime fs path = Inr recorded_mtime" "getsize fs path = Inr recorded_size"
    and rest: "read_records C fs repo group_config summary (lnum + 1) rest d1 = Inr d'"
    by (auto simp: Let_def split: list.splits option.splits sum.splits if_splits)
  show ?case
  proof (cases "line = l")
    case True
    with l show ?thesis by blast
  next
    case False
    then have "line \<in> set rest" using Cons.prems(2) by simp
    from Cons.IH [OF rest this] show ?thesis .
  qed
qed

lemma read_build_summary_checked:
  assumes "read_build_summary C fs spec_base repo group_config =
      Inr (ver_full, build_user, build_time, d)"
  shows "\<exists>log_dir f.
     repo_item group_config repo ''log'' = Inr log_dir \<and>
     files fs (path_join (path_join log_dir spec_base) ''summary'') = Some f \<and>
     (\<forall>line\<in>set (drop 2 (file_lines (content f))).
        \<exists>arch name mtime_field size_field path recorded_mtime recorded_size.
          split CHR ''|'' (strip line) = [arch, name, mtime_field, size_field] \<and>
          py_float C mtime_field = Some recorded_mtime \<and>
          py_int C size_field = Some recorded_size \<and>
          resolve_path name arch repo group_config = Inr path \<and>
          getmtime fs path = Inr recorded_mtime \<and> getsize fs path = Inr recorded_size)"
proof -
  from assms obtain log_dir where log_dir: "repo_item group_config repo ''log'' = Inr log_dir"
    by (auto simp: read_build_summary_def split: sum.splits)
  let ?summary = "path_join (path_join log_dir spec_base) ''summary''"
  from assms log_dir obtain body where body: "open_read fs ?summary = Inr body"
    by (auto simp: read_build_summary_def Let_def split: sum.splits exn.splits if_splits)
  then obtain f where f: "files fs ?summary = Some f" "content f = body"
    by (auto simp: open_read_def split: if_splits option.splits)
  from assms log_dir body have
    "read_records C fs repo group_config ?summary 2 (drop 2 (file_lines body)) Map.empty = Inr d"
    by (auto simp: read_build_summary_def Let_def
             split: sum.splits exn.splits if_splits list.splits option.splits prod.splits)
  then have "\<forall>line\<in>set (drop 2 (file_lines body)).
      \<exists>arch name mtime_field size_field path recorded_mtime recorded_size.
        split CHR ''|'' (strip line) = [arch, name, mtime_field, size_field] \<and>
        py_float C mtime_field = Some recorded_mtime \<and>
        py_int C size_field = Some recorded_size \<and>
        resolve_path name arch repo group_config = Inr path \<and>
        getmtime fs path = Inr recorded_mtime \<and> getsize fs path = Inr recorded_size"
    by (blast dest: read_records_checked)
  with log_dir f show ?thesis by blast
qed

text \<open>
  A line whose recorded time differs from the time of the file ends the loop with an
  \<open>Error\<close> whose prefix is the summary and the line number; its message is the same for
  every file.
\<close>

lemma read_records_mtime_differs:
  assumes "split CHR ''|'' (strip line) = [arch, name, mtime_field, size_field]"
    and "py_float C mtime_field = Some recorded_mtime"
    and "py_int C size_field = Some recorded_size"
    and "resolve_path name arch repo group_config = Inr path"
    and "getmtime fs path = Inr actual_mtime" and "actual_mtime \<noteq> recorded_mtime"
  shows "read_records C fs repo group_config summary lnum (line # rest) d =
     Inl (Error (Some (summary @ '':'' @ show_nat (lnum + 1)))
            (CHR 0x0A # ''Recorded mtime differs from actual for `%s`'') None, lnum + 1)"
  using assms by (simp add: Let_def Error_init_def falsy_def)

text \<open>
  C5. The claim is that a summary whose record of a file differs from the file, or whose
  file is missing, makes \<open>read_build_summary\<close> fail with an error that names the file and
  the line of the summary. The call does fail in each of these cases
  (\<open>read_build_summary_checked\<close>), and the error has the line number. For a missing file
  it also has the path, from the text of the \<open>OSError\<close>. For a different time or size the
  message is \<open>Recorded mtime differs from actual for `%s`\<close> (or \<open>size\<close>), a format string
  the code never applies to the path (\<open>read_records_mtime_differs\<close>): the file is not
  named. The summary of \<open>foo\<close> below is read as it was written; after the time or the
  size of the source package has changed, the \<open>Error\<close> is the one of line 3 with the
  \<open>%s\<close> still in it.
\<close>

theorem read_build_summary_does_not_name_file:
  "map_sum id (\<lambda>(ver_full, build_user, build_time, d). (ver_full, build_user, build_time, d ''srpm''))
     (read_build_summary decimal as_written ''foo'' None three_repos) =
     Inr (''1.0-1.oc00'', ''builder@host'', 1000, Some [''/build/srpm/foo-1.0-1.oc00.src.rpm'']) \<and>
   map_sum id (\<lambda>_. ()) (read_build_summary decimal touched ''foo'' None three_repos) =
     Inl (Error (Some ''/build/log/foo/summary:3'')
            (CHR 0x0A # ''Recorded mtime differs from actual for `%s`'') None) \<and>
   map_sum id (\<lambda>_. ()) (read_build_summary decimal grown ''foo'' None three_repos) =
     Inl (Error (Some ''/build/log/foo/summary:3'')
            (CHR 0x0A # ''Recorded size differs from actual for `%s`'') None) \<and>
   map_sum id (\<lambda>_. ()) (read_build_summary decimal lost ''foo'' None three_repos) =
     Inl (Error None
            (''/build/log/foo/summary:3:'' @ [CHR 0x0A] @
             ''[Errno 2] No such file or directory: '' @
             [CHR 0x27] @ ''/build/srpm/foo-1.0-1.oc00.src.rpm'' @ [CHR 0x27]) None)"
  by code_simp

end
